theory Spec2Isabelle
  imports Complex_Main "HOL-Library.Sublist"
begin

section \<open>Python values shared by the services\<close>

text \<open>
  The services exchange chunks, citations and results as Python dictionaries with string
  keys (\<^verbatim>\<open>Dict[str, Any]\<close>). A dictionary is a map from keys to values; the values
  that occur are \<^verbatim>\<open>None\<close>, integers, floats, strings and nested dictionaries.
  A finite float is the real number it denotes: the services only compare and copy
  scores, they never compute with them.

  Strings are lists of characters, a character being a code point below 256. Text with
  code points from 256 on lies outside this development.
\<close>

datatype pyval =
    PNone
  | PInt int
  | PFloat real
  | PStr string
  | PDict "string \<Rightarrow> pyval option"

type_synonym pydict = "string \<Rightarrow> pyval option"

text \<open>The exceptions that leave a service; \<open>ValueError\<close> carries its message.\<close>

datatype py_error = ValueError string | KeyError | AttributeError | EmbeddingError

text \<open>
  \<^verbatim>\<open>str.isspace\<close> on one character: tab, line feed, vertical tab, form feed,
  carriage return, the four separators 0x1c to 0x1f, the space, the next-line control
  0x85 and the no-break space 0xa0. These are the characters that \<^verbatim>\<open>str.strip()\<close>
  removes and that the regular expression class \<^verbatim>\<open>\s\<close> matches.
\<close>

definition py_isspace :: "char \<Rightarrow> bool" where
  "py_isspace c = (c \<in> set [CHR 0x09, CHR 0x0A, CHR 0x0B, CHR 0x0C, CHR 0x0D,
                              CHR 0x1C, CHR 0x1D, CHR 0x1E, CHR 0x1F, CHR 0x20,
                              CHR 0x85, CHR 0xA0])"

text \<open>\<^verbatim>\<open>s.strip()\<close>: drop leading and trailing whitespace.\<close>

definition strip :: "string \<Rightarrow> string" where
  "strip s = rev (dropWhile py_isspace (rev (dropWhile py_isspace s)))"

text \<open>The guard \<^verbatim>\<open>not s or not s.strip()\<close> used on queries and texts.\<close>

definition is_blank :: "string \<Rightarrow> bool" where
  "is_blank s = (s = [] \<or> strip s = [])"

text \<open>
  \<^verbatim>\<open>xs[:k]\<close>: the first \<open>k\<close> items for \<open>k \<ge> 0\<close>; for a negative \<open>k\<close> Python counts
  the stop from the end, so the last \<open>-k\<close> items are dropped.
\<close>

definition py_slice_to :: "'a list \<Rightarrow> int \<Rightarrow> 'a list" where
  "py_slice_to xs k =
     (if 0 \<le> k then take (nat k) xs else take (nat (int (length xs) + k)) xs)"

section \<open>Answer synthesizer: \<^verbatim>\<open>llm_service.py\<close>\<close>

subsection \<open>Citation extraction\<close>

text \<open>The class \<^verbatim>\<open>\d\<close>: below 256 the decimal digits are the ten ASCII ones.\<close>

definition is_digit :: "char \<Rightarrow> bool" where
  "is_digit c = (c \<in> set ''0123456789'')"

text \<open>
  \<^verbatim>\<open>re.findall(r'\[(\d+)\]', answer_text)\<close>: scan from the left; at an opening bracket
  take the longest run of digits; when the run is not empty and a closing bracket
  follows, the run is a match and the scan goes on after the closing bracket; otherwise
  the scan goes on at the next character. (Giving digits back cannot help: the
  character after a shorter run is a digit, not the closing bracket.)
\<close>

function findall_citation :: "string \<Rightarrow> string list" where
  "findall_citation [] = []"
| "findall_citation (c # cs) =
     (if c = CHR ''[''
      then (case dropWhile is_digit cs of
              [] \<Rightarrow> findall_citation cs
            | r # rest \<Rightarrow>
                if takeWhile is_digit cs \<noteq> [] \<and> r = CHR '']''
                then takeWhile is_digit cs # findall_citation rest
                else findall_citation cs)
      else findall_citation cs)"
  by pat_completeness auto
termination
proof (relation "measure length")
  fix c :: char and cs r rest
  assume "dropWhile is_digit cs = r # rest"
  then have "length (r # rest) \<le> length cs"
    using length_dropWhile_le [of is_digit cs] by simp
  then show "(rest, c # cs) \<in> measure length" by simp
qed auto

text \<open>The decimal value of a string of digits.\<close>

definition digit_val :: "char \<Rightarrow> int" where
  "digit_val c = int (of_char c) - 48"

definition digits_value :: "string \<Rightarrow> int" where
  "digits_value ds = foldl (\<lambda>a d. 10 * a + digit_val d) 0 ds"

text \<open>A natural number in decimal, as \<^verbatim>\<open>str\<close> writes it.\<close>

function show_nat :: "nat \<Rightarrow> string" where
  "show_nat n =
     (if n < 10 then [''0123456789'' ! n]
      else show_nat (n div 10) @ [''0123456789'' ! (n mod 10)])"
  by pat_completeness auto
termination
  by (relation "measure (\<lambda>n. n)") auto

declare show_nat.simps [simp del]

text \<open>
  \<^verbatim>\<open>int(num_str)\<close> on a string of digits. The interpreter refuses a string of more
  than \<^verbatim>\<open>sys.get_int_max_str_digits()\<close> digits, 4300 unless it was changed, leading
  zeros counted, and raises \<open>ValueError\<close>.
\<close>

definition int_max_str_digits :: nat where
  "int_max_str_digits = 4300"

definition py_int :: "string \<Rightarrow> py_error + int" where
  "py_int ds =
     (if length ds > int_max_str_digits
      then Inl (ValueError
             (''Exceeds the limit ('' @ show_nat int_max_str_digits
              @ '' digits) for integer string conversion: value has ''
              @ show_nat (length ds)
              @ '' digits; use sys.set_int_max_str_digits() to increase the limit''))
      else Inr (digits_value ds))"

text \<open>
  The first loop of \<^verbatim>\<open>_extract_citations\<close>: \<open>cited_indices\<close> and \<open>seen\<close> are the two
  variables of the loop, the list is what is left of \<open>citation_numbers\<close>. An
  exception raised by \<^verbatim>\<open>int\<close> ends the loop and the function.
\<close>

fun cited_loop :: "int list \<Rightarrow> int set \<Rightarrow> string list \<Rightarrow> py_error + int list" where
  "cited_loop cited_indices seen [] = Inr cited_indices"
| "cited_loop cited_indices seen (num_str # others) =
     (case py_int num_str of
        Inl e \<Rightarrow> Inl e
      | Inr num \<Rightarrow>
          if num \<notin> seen
          then cited_loop (cited_indices @ [num]) (insert num seen) others
          else cited_loop cited_indices seen others)"

text \<open>
  The second loop: \<open>citations\<close> is the list being built. The index test
  \<^verbatim>\<open>0 <= chunk_idx < len(chunks)\<close> keeps the subscript in range, so it never raises
  and never counts from the end.
\<close>

fun citations_loop :: "pydict list \<Rightarrow> pydict list \<Rightarrow> int list \<Rightarrow> pydict list" where
  "citations_loop chunks citations [] = citations"
| "citations_loop chunks citations (citation_num # others) =
     (let chunk_idx = citation_num - 1 in
      if 0 \<le> chunk_idx \<and> chunk_idx < int (length chunks)
      then citations_loop chunks
             (citations @ [(chunks ! nat chunk_idx)(''citation_number'' \<mapsto> PInt citation_num)])
             others
      else citations_loop chunks citations others)"

definition extract_citations :: "string \<Rightarrow> pydict list \<Rightarrow> py_error + pydict list" where
  "extract_citations answer_text chunks =
     (let citation_numbers = findall_citation answer_text
      in case cited_loop [] {} citation_numbers of
           Inl e \<Rightarrow> Inl e
         | Inr cited_indices \<Rightarrow> Inr (citations_loop chunks [] cited_indices))"

subsection \<open>Prompt construction\<close>

text \<open>Truth value of a Python value, as tested by \<^verbatim>\<open>if section:\<close>.\<close>

fun py_truthy :: "pyval \<Rightarrow> bool" where
  "py_truthy PNone = False"
| "py_truthy (PInt i) = (i \<noteq> 0)"
| "py_truthy (PFloat r) = (r \<noteq> 0)"
| "py_truthy (PStr s) = (s \<noteq> [])"
| "py_truthy (PDict d) = (d \<noteq> Map.empty)"

text \<open>\<^verbatim>\<open>d.get(key, default)\<close> on a dictionary.\<close>

definition dict_get :: "pydict \<Rightarrow> string \<Rightarrow> pyval \<Rightarrow> pyval" where
  "dict_get d k dflt = (case d k of None \<Rightarrow> dflt | Some v \<Rightarrow> v)"

definition newline :: string where
  "newline = [CHR 0x0A]"

text \<open>\<^verbatim>\<open>sep.join(parts)\<close>.\<close>

fun join :: "string \<Rightarrow> string list \<Rightarrow> string" where
  "join sep [] = []"
| "join sep [s] = s"
| "join sep (s # t # others) = s @ sep @ join sep (t # others)"

text \<open>
  \<^verbatim>\<open>_format_sources\<close>. The parameter \<open>fmt\<close> is Python's formatting of a value inside
  an f-string (\<^verbatim>\<open>str(v)\<close>), which is the interpreter's. The loop numbers the chunks
  from 1. \<^verbatim>\<open>chunk.get("metadata", {})\<close> may be any value; calling \<^verbatim>\<open>.get\<close> on
  one that is not a dictionary raises \<open>AttributeError\<close>, outside every
  \<^verbatim>\<open>try\<close>.
\<close>

fun format_sources_loop ::
  "(pyval \<Rightarrow> string) \<Rightarrow> int \<Rightarrow> string list \<Rightarrow> pydict list \<Rightarrow> py_error + string list" where
  "format_sources_loop fmt i sources [] = Inr sources"
| "format_sources_loop fmt i sources (chunk # others) =
     (case dict_get chunk ''metadata'' (PDict Map.empty) of
        PDict metadata \<Rightarrow>
          (let title = dict_get metadata ''title'' (PStr ''Source'');
               section = dict_get metadata ''section'' (PStr []);
               text = dict_get chunk ''text'' (PStr []);
               source_header = ''['' @ fmt (PInt i) @ ''] '' @ fmt title;
               source_header = (if py_truthy section
                                then source_header @ '' - '' @ fmt section
                                else source_header)
           in format_sources_loop fmt (i + 1)
                (sources @ [source_header @ newline @ fmt text]) others)
      | _ \<Rightarrow> Inl AttributeError)"

definition format_sources :: "(pyval \<Rightarrow> string) \<Rightarrow> pydict list \<Rightarrow> py_error + string" where
  "format_sources fmt chunks =
     (case format_sources_loop fmt 1 [] chunks of
        Inl e \<Rightarrow> Inl e
      | Inr sources \<Rightarrow> Inr (join (newline @ newline) sources))"

definition construct_prompt :: "string \<Rightarrow> string \<Rightarrow> string" where
  "construct_prompt query sources_text =
     ''You are a helpful AI assistant. Answer the question based on the provided sources below.''
     @ newline @ newline
     @ ''IMPORTANT RULES:'' @ newline
     @ ''1. Base your answer primarily on the numbered sources [1], [2], etc.'' @ newline
     @ ''2. Include citations using [1], [2], etc. after sentences that reference a source.''
     @ newline
     @ ''3. Synthesize information across multiple sources when relevant.'' @ newline
     @ ''4. If the sources provide partial information, answer what you can and note any gaps.''
     @ newline
     @ ''5. Only if the sources contain NO relevant information at all, say ''
     @ [CHR 0x22] @ ''I cannot find this information in the provided sources.'' @ [CHR 0x22]
     @ newline
     @ ''6. Be concise, accurate, and helpful.'' @ newline @ newline
     @ ''SOURCES:'' @ newline
     @ sources_text @ newline @ newline
     @ ''QUESTION: '' @ query @ newline @ newline
     @ ''ANSWER:''"

subsection \<open>\<^verbatim>\<open>generate_answer\<close>\<close>

text \<open>
  The fields of the service that the method reads. The language model is a collaborator
  over the network: \<open>api attempt prompt max_tokens\<close> is the content of the first
  choice of the completion returned to the call made at that attempt, or \<open>None\<close>
  when the call (or reading the response) raises.
\<close>

record llm_service =
  llm_model :: string
  llm_max_tokens :: int
  llm_max_retries :: int

type_synonym llm_api = "nat \<Rightarrow> string \<Rightarrow> int \<Rightarrow> string option"

text \<open>
  The returned dictionary. Its \<open>metadata\<close> entry is reduced to what tells the three
  returns apart: the note \<^verbatim>\<open>"error": "No chunks provided"\<close>, the generation
  parameters, or \<^verbatim>\<open>"fallback": True\<close>.
\<close>

datatype answer_metadata = NoChunksProvided | GenerationInfo | FallbackInfo

record answer_result =
  answer :: string
  citations :: "pydict list"
  chunk_count :: int
  model :: string
  answer_meta :: answer_metadata

definition is_number :: "pyval \<Rightarrow> bool" where
  "is_number v = (case v of PInt _ \<Rightarrow> True | PFloat _ \<Rightarrow> True | _ \<Rightarrow> False)"

definition is_str :: "pyval \<Rightarrow> bool" where
  "is_str v = (case v of PStr _ \<Rightarrow> True | _ \<Rightarrow> False)"

text \<open>
  The extraction of the citations and the log line printed for each citation sit inside
  the \<^verbatim>\<open>try\<close>, so when one of them raises the attempt counts as failed. The log line
  completes when the \<open>metadata\<close> entry is a dictionary (or absent), when the source is
  a string if a section has to be appended to it, and when the reranker score (0 if
  absent) can be formatted with \<^verbatim>\<open>:.4f\<close>.
\<close>

definition citation_log_ok :: "pydict \<Rightarrow> bool" where
  "citation_log_ok citation =
     ((case dict_get citation ''metadata'' (PDict Map.empty) of
         PDict source_metadata \<Rightarrow>
           (let source_info = dict_get source_metadata ''source'' (PStr ''Unknown'');
                section = dict_get source_metadata ''section'' (PStr [])
            in py_truthy section \<longrightarrow> is_str source_info)
       | _ \<Rightarrow> False)
      \<and> is_number (dict_get citation ''reranker_score'' (PInt 0)))"

text \<open>
  The retry loop \<^verbatim>\<open>for attempt in range(self.max_retries)\<close>. The last argument is
  the list of prompts sent to the language model so far; the loop returns it with the
  result, so that the calls made are part of the outcome. When the range is empty the
  body never runs and the method returns \<^verbatim>\<open>None\<close>.
\<close>

fun answer_loop ::
  "llm_service \<Rightarrow> llm_api \<Rightarrow> string \<Rightarrow> pydict list \<Rightarrow> int \<Rightarrow> nat list \<Rightarrow> string list
     \<Rightarrow> answer_result option \<times> string list" where
  "answer_loop self api prompt chunks max_tokens [] sent = (None, sent)"
| "answer_loop self api prompt chunks max_tokens (attempt # others) sent =
     (let attempted =
        (case api attempt prompt max_tokens of
           None \<Rightarrow> None
         | Some content \<Rightarrow>
             (let answer_text = strip content
              in case extract_citations answer_text chunks of
                   Inl e \<Rightarrow> None
                 | Inr cited \<Rightarrow>
                     if list_all citation_log_ok cited
                     then Some \<lparr>answer = answer_text, citations = cited,
                                chunk_count = int (length chunks), model = llm_model self,
                                answer_meta = GenerationInfo\<rparr>
                     else None))
      in case attempted of
           Some result \<Rightarrow> (Some result, sent @ [prompt])
         | None \<Rightarrow>
             if int attempt < llm_max_retries self - 1
             then answer_loop self api prompt chunks max_tokens others (sent @ [prompt])
             else (Some \<lparr>answer = ''I apologize, but I encountered an error while processing your query. Please try again.'',
                         citations = [], chunk_count = int (length chunks),
                         model = llm_model self, answer_meta = FallbackInfo\<rparr>,
                   sent @ [prompt]))"

text \<open>\<^verbatim>\<open>a or b\<close> on an optional integer: \<^verbatim>\<open>None\<close> and 0 both give \<open>b\<close>.\<close>

definition int_or :: "int option \<Rightarrow> int \<Rightarrow> int" where
  "int_or a b = (case a of None \<Rightarrow> b | Some k \<Rightarrow> if k = 0 then b else k)"

text \<open>
  \<^verbatim>\<open>generate_answer\<close> returns the raised exception or the returned value, together
  with the prompts sent to the language model.
\<close>

definition generate_answer ::
  "llm_service \<Rightarrow> llm_api \<Rightarrow> (pyval \<Rightarrow> string) \<Rightarrow> string \<Rightarrow> pydict list \<Rightarrow> int option
     \<Rightarrow> (py_error + answer_result option) \<times> string list" where
  "generate_answer self api fmt query chunks max_tokens =
     (if is_blank query then (Inl (ValueError ''Query cannot be empty''), [])
      else if chunks = []
      then (Inr (Some \<lparr>answer = ''No relevant information found in the provided sources.'',
                        citations = [], chunk_count = 0, model = llm_model self,
                        answer_meta = NoChunksProvided\<rparr>), [])
      else
        (let max_tokens = int_or max_tokens (llm_max_tokens self) in
         case format_sources fmt chunks of
           Inl e \<Rightarrow> (Inl e, [])
         | Inr sources_text \<Rightarrow>
             (let prompt = construct_prompt query sources_text;
                  (result, sent) = answer_loop self api prompt chunks max_tokens
                                     [0 ..< nat (llm_max_retries self)] []
              in (Inr result, sent))))"

section \<open>Chunker: \<^verbatim>\<open>chunker.py\<close>\<close>

record chunk_metadata =
  source :: string
  title :: "string option"
  "section" :: "string option"
  position :: int
  token_count :: int

record text_chunk =
  "text" :: string
  metadata :: chunk_metadata

text \<open>
  The chunker object: its two budgets and its encoder. The encoder is the tokenizer
  library's (\<^verbatim>\<open>tiktoken.get_encoding(encoding_name)\<close>); its \<^verbatim>\<open>encode\<close> maps a text to
  its list of tokens and is a parameter here. Texts that the encoder refuses (the
  library does so for the spelling of one of its special tokens) are not covered.
\<close>

record text_chunker =
  chunk_size :: int
  chunk_overlap :: int
  encoder :: "string \<Rightarrow> nat list"

definition count_tokens :: "text_chunker \<Rightarrow> string \<Rightarrow> int" where
  "count_tokens self txt = int (length (encoder self txt))"

subsection \<open>Sentence splitting\<close>

definition is_upper :: "char \<Rightarrow> bool" where
  "is_upper c = (c \<in> set ''ABCDEFGHIJKLMNOPQRSTUVWXYZ'')"

text \<open>The lookbehind \<^verbatim>\<open>(?<=[.!?])\<close>: the character before the position ends a sentence.\<close>

definition after_terminal :: "char option \<Rightarrow> bool" where
  "after_terminal prev = (case prev of None \<Rightarrow> False | Some c \<Rightarrow> c \<in> set ''.!?'')"

text \<open>
  The first alternative, \<^verbatim>\<open>\s+(?=[A-Z])\<close>, at a position where \<open>rest\<close> is what
  follows: the longest run of whitespace is not empty and an uppercase letter comes
  after it. (A shorter run is followed by whitespace, so giving whitespace back cannot
  help.)
\<close>

definition boundary_space :: "string \<Rightarrow> bool" where
  "boundary_space rest =
     (takeWhile py_isspace rest \<noteq> [] \<and>
      (case dropWhile py_isspace rest of [] \<Rightarrow> False | r # _ \<Rightarrow> is_upper r))"

text \<open>
  The second alternative, \<^verbatim>\<open>$\<close>: the end of the text, or the position before a line
  feed that ends the text.
\<close>

definition at_dollar :: "string \<Rightarrow> bool" where
  "at_dollar rest = (rest = [] \<or> rest = [CHR 0x0A])"

text \<open>
  \<^verbatim>\<open>re.split(pattern, text)\<close> for the pattern
  \<^verbatim>\<open>(?<=[.!?])\s+(?=[A-Z])|(?<=[.!?])$\<close>. The scan keeps the character before the
  position, the piece collected since the last match, and the rest of the text. A match
  of the first alternative closes the piece and drops the whitespace run. A match of the
  second alternative is empty; it closes the piece, and what is left (nothing, or the
  final line feed) is the last piece, since no later position follows a terminal mark.
\<close>

function re_split_sentences :: "char option \<Rightarrow> string \<Rightarrow> string \<Rightarrow> string list" where
  "re_split_sentences prev piece rest =
     (if after_terminal prev \<and> boundary_space rest
      then piece # re_split_sentences (Some (last (takeWhile py_isspace rest))) []
                     (dropWhile py_isspace rest)
      else if after_terminal prev \<and> at_dollar rest then [piece, rest]
      else (case rest of
              [] \<Rightarrow> [piece]
            | c # cs \<Rightarrow> re_split_sentences (Some c) (piece @ [c]) cs))"
  by pat_completeness auto
termination
proof (relation "measure (\<lambda>(prev, piece, rest). length rest)")
  fix prev :: "char option" and piece rest :: string
  assume "after_terminal prev \<and> boundary_space rest"
  then have "takeWhile py_isspace rest \<noteq> []"
    by (simp add: boundary_space_def)
  moreover have "length rest =
      length (takeWhile py_isspace rest) + length (dropWhile py_isspace rest)"
    by (metis length_append takeWhile_dropWhile_id)
  ultimately have "length (dropWhile py_isspace rest) < length rest"
    by simp
  then show "((Some (last (takeWhile py_isspace rest)), [], dropWhile py_isspace rest),
              (prev, piece, rest)) \<in> measure (\<lambda>(prev, piece, rest). length rest)"
    by simp
qed auto

definition split_into_sentences :: "string \<Rightarrow> string list" where
  "split_into_sentences txt =
     (let sentences = re_split_sentences None [] txt
      in map strip (filter (\<lambda>s. strip s \<noteq> []) sentences))"

subsection \<open>\<^verbatim>\<open>chunk_text\<close>\<close>

text \<open>
  The variables of the loop over the sentences. The source's \<open>chunks\<close> and
  \<open>position\<close> are \<open>emitted_chunks\<close> and \<open>next_position\<close> here; the arguments
  \<open>source\<close>, \<open>title\<close> and \<open>section\<close> are written \<open>src\<close>, \<open>ttl\<close> and
  \<open>sec\<close>, the names being those of the fields of the metadata.
\<close>

record chunk_state =
  emitted_chunks :: "text_chunk list"
  current_chunk_sentences :: "string list"
  current_token_count :: int
  next_position :: int

definition make_chunk ::
  "string \<Rightarrow> string option \<Rightarrow> string option \<Rightarrow> string \<Rightarrow> int \<Rightarrow> int \<Rightarrow> text_chunk" where
  "make_chunk src ttl sec txt pos tokens =
     \<lparr>text = txt,
      metadata = \<lparr>source = src, title = ttl, section = sec, position = pos,
                  token_count = tokens\<rparr>\<rparr>"

text \<open>
  The inner loop \<^verbatim>\<open>for s in reversed(current_chunk_sentences)\<close>: the list is what is
  left of the reversed sentences; \<^verbatim>\<open>insert(0, s)\<close> puts \<open>s\<close> in front; \<^verbatim>\<open>break\<close> ends
  the loop.
\<close>

fun overlap_loop ::
  "text_chunker \<Rightarrow> string list \<Rightarrow> string list \<Rightarrow> int \<Rightarrow> string list \<times> int" where
  "overlap_loop self [] overlap_sentences overlap_tokens = (overlap_sentences, overlap_tokens)"
| "overlap_loop self (s # others) overlap_sentences overlap_tokens =
     (let s_tokens = count_tokens self s in
      if overlap_tokens + s_tokens \<le> chunk_overlap self
      then overlap_loop self others (s # overlap_sentences) (overlap_tokens + s_tokens)
      else (overlap_sentences, overlap_tokens))"

text \<open>Appending the pending chunk to the list \<open>chunks\<close> and counting the position up.\<close>

definition save_current ::
  "string \<Rightarrow> string option \<Rightarrow> string option \<Rightarrow> chunk_state \<Rightarrow> chunk_state" where
  "save_current src ttl sec st =
     st\<lparr>emitted_chunks := emitted_chunks st @
           [make_chunk src ttl sec (join '' '' (current_chunk_sentences st))
              (next_position st) (current_token_count st)],
        next_position := next_position st + 1\<rparr>"

text \<open>One run of the body of the loop, for one sentence.\<close>

definition chunk_step ::
  "text_chunker \<Rightarrow> string \<Rightarrow> string option \<Rightarrow> string option \<Rightarrow> chunk_state \<Rightarrow> string
     \<Rightarrow> chunk_state" where
  "chunk_step self src ttl sec st sentence =
     (let sentence_tokens = count_tokens self sentence in
      if sentence_tokens > chunk_size self
      then
        (let st1 = (if current_chunk_sentences st \<noteq> []
                    then (save_current src ttl sec st)
                           \<lparr>current_chunk_sentences := [], current_token_count := 0\<rparr>
                    else st)
         in st1\<lparr>emitted_chunks := emitted_chunks st1 @
                   [make_chunk src ttl sec sentence (next_position st1) sentence_tokens],
                 next_position := next_position st1 + 1\<rparr>)
      else
        (let potential_token_count = current_token_count st + sentence_tokens;
             st1 = (if potential_token_count > chunk_size self \<and>
                       current_chunk_sentences st \<noteq> []
                    then (let (overlap_sentences, overlap_tokens) =
                                overlap_loop self (rev (current_chunk_sentences st)) [] 0
                          in (save_current src ttl sec st)
                               \<lparr>current_chunk_sentences := overlap_sentences,
                                current_token_count := overlap_tokens\<rparr>)
                    else st)
         in st1\<lparr>current_chunk_sentences := current_chunk_sentences st1 @ [sentence],
                 current_token_count := current_token_count st1 + sentence_tokens\<rparr>))"

definition initial_state :: chunk_state where
  "initial_state =
     \<lparr>emitted_chunks = [], current_chunk_sentences = [], current_token_count = 0,
      next_position = 0\<rparr>"

text \<open>The loop and the final chunk, for a given list of sentences.\<close>

definition chunk_sentences ::
  "text_chunker \<Rightarrow> string \<Rightarrow> string option \<Rightarrow> string option \<Rightarrow> string list
     \<Rightarrow> text_chunk list" where
  "chunk_sentences self src ttl sec sentences =
     (let st = foldl (chunk_step self src ttl sec) initial_state sentences
      in if current_chunk_sentences st \<noteq> []
         then emitted_chunks (save_current src ttl sec st)
         else emitted_chunks st)"

definition sentences_of :: "string \<Rightarrow> string list" where
  "sentences_of txt =
     (let sentences = split_into_sentences txt
      in if sentences = [] then [txt] else sentences)"

definition chunk_text ::
  "text_chunker \<Rightarrow> string \<Rightarrow> string \<Rightarrow> string option \<Rightarrow> string option \<Rightarrow> text_chunk list" where
  "chunk_text self txt src ttl sec =
     (if strip txt = [] then []
      else chunk_sentences self src ttl sec (sentences_of txt))"

text \<open>
  An encoder for evaluating the chunker on concrete texts: a byte-level encoding
  without merges, one token per character.
\<close>

definition byte_encoder :: "string \<Rightarrow> nat list" where
  "byte_encoder txt = map of_char txt"

section \<open>Reranker: \<^verbatim>\<open>reranker_service.py\<close>\<close>

text \<open>
  The fields of the service that \<^verbatim>\<open>rerank\<close> reads. The relevance model is a
  collaborator over the network: \<open>api attempt query documents\<close> is the list
  \<^verbatim>\<open>results.get("results", [])\<close> of the response to the request posted at that
  attempt, each item given by its \<^verbatim>\<open>index\<close> and its \<^verbatim>\<open>relevance_score\<close>, or
  \<open>None\<close> when the request, its status check or the reading of the response raises.
\<close>

record reranker_service =
  rerank_top_k :: int
  rerank_max_retries :: int

type_synonym rerank_api = "nat \<Rightarrow> string \<Rightarrow> pyval list \<Rightarrow> (int \<times> real) list option"

text \<open>
  \<^verbatim>\<open>xs[i]\<close>: an index from \<open>-len(xs)\<close> to \<open>len(xs) - 1\<close>, the negative ones counting
  from the end; any other index raises \<open>IndexError\<close>, here \<open>None\<close>.
\<close>

definition py_index :: "'a list \<Rightarrow> int \<Rightarrow> 'a option" where
  "py_index xs i =
     (let n = int (length xs) in
      if 0 \<le> i \<and> i < n then Some (xs ! nat i)
      else if - n \<le> i \<and> i < 0 then Some (xs ! nat (n + i))
      else None)"

text \<open>
  The loop over the results: \<open>reranked\<close> and \<open>all_scores\<close> are its two lists. It runs
  inside the \<^verbatim>\<open>try\<close>; \<open>None\<close> is an exception raised by \<^verbatim>\<open>chunks[idx]\<close>.
\<close>

fun rerank_collect ::
  "pydict list \<Rightarrow> (int \<times> real) list \<Rightarrow> pydict list \<Rightarrow> real list
     \<Rightarrow> (pydict list \<times> real list) option" where
  "rerank_collect chunks [] reranked all_scores = Some (reranked, all_scores)"
| "rerank_collect chunks ((idx, score) # others) reranked all_scores =
     (case py_index chunks idx of
        None \<Rightarrow> None
      | Some chunk \<Rightarrow>
          rerank_collect chunks others
            (reranked @ [chunk(''reranker_score'' \<mapsto> PFloat score)])
            (all_scores @ [score]))"

text \<open>
  The sort key \<^verbatim>\<open>x["reranker_score"]\<close>. Every chunk that reaches the sort had the
  entry set to a float by the loop above, so the other cases do not occur.
\<close>

definition reranker_score :: "pydict \<Rightarrow> real" where
  "reranker_score x = (case x ''reranker_score'' of Some (PFloat score) \<Rightarrow> score | _ \<Rightarrow> 0)"

text \<open>
  \<^verbatim>\<open>sorted(xs, key=key, reverse=True)\<close>. Python's sort is stable, and with
  \<^verbatim>\<open>reverse=True\<close> it reverses the list, sorts it ascending and stable, and reverses
  the result, so that items with equal keys keep their order.
\<close>

definition py_sorted_reverse :: "('a \<Rightarrow> real) \<Rightarrow> 'a list \<Rightarrow> 'a list" where
  "py_sorted_reverse key xs = rev (sort_key key (rev xs))"

text \<open>
  The log line printed for each final chunk, inside the \<^verbatim>\<open>try\<close>: it subtracts the
  retrieval score (0 if absent) from the reranker score and slices the text, so it
  completes when the first is a number and the second a string.
\<close>

definition rerank_log_ok :: "pydict \<Rightarrow> bool" where
  "rerank_log_ok chunk =
     (is_number (dict_get chunk ''score'' (PInt 0)) \<and>
      is_number (dict_get chunk ''reranker_score'' (PInt 0)) \<and>
      (case chunk ''text'' of Some v \<Rightarrow> is_str v | None \<Rightarrow> False))"

record rerank_result =
  reranked_chunks :: "pydict list"
  rerank_scores :: "real list"
  result_count :: int
  fallback :: bool

text \<open>The body of the \<^verbatim>\<open>try\<close> for one attempt; \<open>None\<close> when it raises.\<close>

definition rerank_attempt ::
  "rerank_api \<Rightarrow> nat \<Rightarrow> string \<Rightarrow> pydict list \<Rightarrow> pyval list \<Rightarrow> int \<Rightarrow> rerank_result option" where
  "rerank_attempt api attempt query chunks texts top_k =
     (case api attempt query texts of
        None \<Rightarrow> None
      | Some results \<Rightarrow>
          (case rerank_collect chunks results [] [] of
             None \<Rightarrow> None
           | Some (reranked, all_scores) \<Rightarrow>
               (let reranked = py_sorted_reverse reranker_score reranked;
                    final_chunks = py_slice_to reranked top_k
                in if list_all rerank_log_ok final_chunks
                   then Some \<lparr>reranked_chunks = final_chunks, rerank_scores = all_scores,
                              result_count = int (length final_chunks), fallback = False\<rparr>
                   else None)))"

text \<open>
  The retry loop \<^verbatim>\<open>for attempt in range(self.max_retries)\<close>. After a failed attempt
  that is not the last one it sleeps and goes on; after the last one it returns the
  fallback. When the range is empty the method returns \<^verbatim>\<open>None\<close>.
\<close>

fun rerank_loop ::
  "reranker_service \<Rightarrow> rerank_api \<Rightarrow> string \<Rightarrow> pydict list \<Rightarrow> pyval list \<Rightarrow> int \<Rightarrow> nat list
     \<Rightarrow> rerank_result option" where
  "rerank_loop self api query chunks texts top_k [] = None"
| "rerank_loop self api query chunks texts top_k (attempt # others) =
     (case rerank_attempt api attempt query chunks texts top_k of
        Some result \<Rightarrow> Some result
      | None \<Rightarrow>
          if int attempt < rerank_max_retries self - 1
          then rerank_loop self api query chunks texts top_k others
          else Some \<lparr>reranked_chunks = py_slice_to chunks top_k, rerank_scores = [],
                     result_count = min (int (length chunks)) top_k, fallback = True\<rparr>)"

text \<open>
  \<^verbatim>\<open>[chunk["text"] for chunk in chunks]\<close>, outside the \<^verbatim>\<open>try\<close>: a chunk without
  the entry raises \<open>KeyError\<close>.
\<close>

fun chunk_texts :: "pydict list \<Rightarrow> pyval list option" where
  "chunk_texts [] = Some []"
| "chunk_texts (chunk # others) =
     (case chunk ''text'' of
        None \<Rightarrow> None
      | Some v \<Rightarrow> (case chunk_texts others of None \<Rightarrow> None | Some vs \<Rightarrow> Some (v # vs)))"

definition rerank ::
  "reranker_service \<Rightarrow> rerank_api \<Rightarrow> string \<Rightarrow> pydict list \<Rightarrow> int option
     \<Rightarrow> py_error + rerank_result option" where
  "rerank self api query chunks top_k =
     (if is_blank query then Inl (ValueError ''Query cannot be empty'')
      else if chunks = [] then Inl (ValueError ''No chunks to rerank'')
      else
        (let top_k = int_or top_k (rerank_top_k self) in
         case chunk_texts chunks of
           None \<Rightarrow> Inl KeyError
         | Some texts \<Rightarrow>
             Inr (rerank_loop self api query chunks texts top_k
                    [0 ..< nat (rerank_max_retries self)])))"

section \<open>Embedder: \<^verbatim>\<open>embedding_service.py\<close>\<close>

text \<open>
  The embedding model is a collaborator over the network: \<open>api attempt input\<close> is the
  list of the \<^verbatim>\<open>embedding\<close> entries of the \<^verbatim>\<open>data\<close> items of the response to the
  request posted at that attempt, or \<open>None\<close> when the request, its status check or
  the reading of the response raises.
\<close>

record embedding_service =
  embed_max_retries :: int

type_synonym embed_api = "nat \<Rightarrow> string list \<Rightarrow> real list list option"

text \<open>
  The retry loop of \<^verbatim>\<open>generate_embeddings_batch\<close>: the last failed attempt raises,
  and an empty range returns \<^verbatim>\<open>None\<close>.
\<close>

fun embed_loop ::
  "embedding_service \<Rightarrow> embed_api \<Rightarrow> string list \<Rightarrow> nat list
     \<Rightarrow> py_error + real list list option" where
  "embed_loop self api valid_texts [] = Inr None"
| "embed_loop self api valid_texts (attempt # others) =
     (case api attempt valid_texts of
        Some embeddings \<Rightarrow> Inr (Some embeddings)
      | None \<Rightarrow>
          if int attempt < embed_max_retries self - 1
          then embed_loop self api valid_texts others
          else Inl EmbeddingError)"

definition generate_embeddings_batch ::
  "embedding_service \<Rightarrow> embed_api \<Rightarrow> string list \<Rightarrow> py_error + real list list option" where
  "generate_embeddings_batch self api texts =
     (if texts = [] then Inr (Some [])
      else
        (let valid_texts = filter (\<lambda>t. \<not> is_blank t) texts in
         if valid_texts = [] then Inl (ValueError ''No valid texts to embed'')
         else embed_loop self api valid_texts [0 ..< nat (embed_max_retries self)]))"

section \<open>Notions used to state the properties\<close>

text \<open>
  The values of the markers \<open>[n]\<close> of an answer, in the order in which they appear,
  repetitions included.
\<close>

definition citation_markers :: "string \<Rightarrow> int list" where
  "citation_markers answer_text = map digits_value (findall_citation answer_text)"

text \<open>No marker of the answer has more digits than \<^verbatim>\<open>int\<close> accepts.\<close>

definition markers_within_limit :: "string \<Rightarrow> bool" where
  "markers_within_limit answer_text =
     list_all (\<lambda>ds. length ds \<le> int_max_str_digits) (findall_citation answer_text)"

text \<open>An answer that cites the first source and then carries a marker of 4301 digits.\<close>

definition long_marker :: string where
  "long_marker = replicate 4301 (CHR ''9'')"

definition long_answer :: string where
  "long_answer = ''[1]['' @ long_marker @ '']''"

text \<open>Four retrieved chunks, a service and collaborators for concrete evaluations.\<close>

definition example_chunks :: "pydict list" where
  "example_chunks =
     [[''id'' \<mapsto> PStr ''a'', ''text'' \<mapsto> PStr ''Cats purr.''],
      [''id'' \<mapsto> PStr ''b'', ''text'' \<mapsto> PStr ''Dogs bark.''],
      [''id'' \<mapsto> PStr ''c'', ''text'' \<mapsto> PStr ''Cows moo.''],
      [''id'' \<mapsto> PStr ''d'', ''text'' \<mapsto> PStr ''Owls hoot.'']]"

definition example_llm_service :: llm_service where
  "example_llm_service =
     \<lparr>llm_model = ''llama-3.3-70b-versatile'', llm_max_tokens = 1024, llm_max_retries = 3\<rparr>"

definition failing_llm :: llm_api where
  "failing_llm attempt prompt max_tokens = None"

definition plain_format :: "pyval \<Rightarrow> string" where
  "plain_format v = (case v of PStr s \<Rightarrow> s | _ \<Rightarrow> ''?'')"

text \<open>
  The sum of the token counts of some sentences, each counted on its own: what the loop
  of \<^verbatim>\<open>chunk_text\<close> accumulates in \<open>current_token_count\<close>.
\<close>

definition sum_tokens :: "text_chunker \<Rightarrow> string list \<Rightarrow> int" where
  "sum_tokens self ss = sum_list (map (count_tokens self) ss)"

text \<open>
  An oversized-sentence chunk: its text is one sentence of the input whose token count
  exceeds \<open>chunk_size\<close> and is the recorded \<open>token_count\<close>.
\<close>

definition oversized_sentence_chunk :: "text_chunker \<Rightarrow> string list \<Rightarrow> text_chunk \<Rightarrow> bool" where
  "oversized_sentence_chunk self sentences c =
     (\<exists>s \<in> set sentences. text c = s \<and> token_count (metadata c) = count_tokens self s \<and>
        count_tokens self s > chunk_size self)"

text \<open>
  A chunk packs some sentences of the input when its text is those sentences joined by a
  space and its \<open>token_count\<close> is the sum of their token counts.
\<close>

definition packs_sentences :: "text_chunker \<Rightarrow> string list \<Rightarrow> text_chunk \<Rightarrow> bool" where
  "packs_sentences self sentences c =
     (\<exists>ss. ss \<noteq> [] \<and> set ss \<subseteq> set sentences \<and> text c = join '' '' ss \<and>
        token_count (metadata c) = sum_tokens self ss)"

text \<open>The variables of the loop of \<^verbatim>\<open>chunk_text\<close> after it has run over some sentences.\<close>

definition state_after ::
  "text_chunker \<Rightarrow> string \<Rightarrow> string option \<Rightarrow> string option \<Rightarrow> string list \<Rightarrow> chunk_state" where
  "state_after self src ttl sec sentences = foldl (chunk_step self src ttl sec) initial_state sentences"

text \<open>What holds of the variables of the loop each time round.\<close>

definition chunker_inv :: "text_chunker \<Rightarrow> string list \<Rightarrow> chunk_state \<Rightarrow> bool" where
  "chunker_inv self sentences st =
     (next_position st = int (length (emitted_chunks st)) \<and>
      map (\<lambda>c. position (metadata c)) (emitted_chunks st) =
        map int [0 ..< length (emitted_chunks st)] \<and>
      current_token_count st = sum_tokens self (current_chunk_sentences st) \<and>
      set (current_chunk_sentences st) \<subseteq> set sentences \<and>
      (\<forall>c \<in> set (emitted_chunks st).
          packs_sentences self sentences c \<and>
          (token_count (metadata c) \<le> chunk_size self + max 0 (chunk_overlap self) \<or>
           oversized_sentence_chunk self sentences c)) \<and>
      (current_chunk_sentences st \<noteq> [] \<longrightarrow>
         current_token_count st \<le> chunk_size self + max 0 (chunk_overlap self)))"

text \<open>Two chunkers for concrete evaluations, both with the byte-level encoder.\<close>

definition example_chunker :: text_chunker where
  "example_chunker = \<lparr>chunk_size = 10, chunk_overlap = 5, encoder = byte_encoder\<rparr>"

definition default_chunker :: text_chunker where
  "default_chunker = \<lparr>chunk_size = 1000, chunk_overlap = 120, encoder = byte_encoder\<rparr>"



text \<open>
  A reranker, two retrieved chunks and three relevance models for concrete
  evaluations: one that scores both chunks alike and lists the second chunk first, one
  that always fails, and one that prefers the second chunk.
\<close>

definition example_reranker :: reranker_service where
  "example_reranker = \<lparr>rerank_top_k = 5, rerank_max_retries = 3\<rparr>"

definition chunk_a :: pydict where
  "chunk_a = [''id'' \<mapsto> PStr ''a'', ''text'' \<mapsto> PStr ''Cats purr.'', ''score'' \<mapsto> PFloat (9 / 10)]"

definition chunk_b :: pydict where
  "chunk_b = [''id'' \<mapsto> PStr ''b'', ''text'' \<mapsto> PStr ''Dogs bark.'', ''score'' \<mapsto> PFloat (4 / 5)]"


definition failing_api :: rerank_api where
  "failing_api attempt query documents = None"


text \<open>
  An embedder and an embedding model that answers every request, one vector per input.
\<close>

definition example_embedder :: embedding_service where
  "example_embedder = \<lparr>embed_max_retries = 3\<rparr>"

definition length_embedder :: embed_api where
  "length_embedder attempt input = Some (map (\<lambda>t. [real (length t)]) input)"

section \<open>Properties of the answer synthesizer\<close>

subsection \<open>Blank strings\<close>

lemma strip_empty_iff: "strip s = [] \<longleftrightarrow> (\<forall>c \<in> set s. py_isspace c)"
proof
  assume "strip s = []"
  then have "dropWhile py_isspace (rev (dropWhile py_isspace s)) = []"
    by (simp add: strip_def)
  then have "\<forall>c \<in> set (dropWhile py_isspace s). py_isspace c"
    by (simp add: dropWhile_eq_Nil_conv)
  then have "dropWhile py_isspace s = []"
    by (metis hd_dropWhile hd_in_set)
  then show "\<forall>c \<in> set s. py_isspace c"
    by (simp add: dropWhile_eq_Nil_conv)
next
  assume "\<forall>c \<in> set s. py_isspace c"
  then have d: "dropWhile py_isspace s = []"
    by (simp add: dropWhile_eq_Nil_conv)
  show "strip s = []"
    unfolding strip_def d by simp
qed

lemma is_blank_iff: "is_blank s \<longleftrightarrow> (\<forall>c \<in> set s. py_isspace c)"
  by (auto simp: is_blank_def strip_empty_iff)

subsection \<open>Citation extraction\<close>

text \<open>
  \<open>rev (remdups (rev ns))\<close> keeps the first occurrence of every value of \<open>ns\<close>, in
  order: \<open>remdups\<close> keeps the last ones.
\<close>

lemma first_occ_skip:
  "n \<in> set acc \<Longrightarrow> rev (remdups (rev (acc @ n # rest))) = rev (remdups (rev (acc @ rest)))"
proof -
  assume n: "n \<in> set acc"
  have "remdups (rev rest @ n # rev acc) = remdups (rev rest @ remdups (n # rev acc))"
    by (simp only: remdups_append2)
  also have "\<dots> = remdups (rev rest @ remdups (rev acc))"
    using n by simp
  also have "\<dots> = remdups (rev rest @ rev acc)"
    by (simp only: remdups_append2)
  finally show ?thesis by simp
qed

lemma py_int_within_limit:
  "length ds \<le> int_max_str_digits \<Longrightarrow> py_int ds = Inr (digits_value ds)"
  by (simp add: py_int_def)

lemma py_int_over_limit:
  "length ds > int_max_str_digits \<Longrightarrow> \<exists>msg. py_int ds = Inl (ValueError msg)"
  by (simp add: py_int_def)

lemma cited_loop_first_occurrences:
  "list_all (\<lambda>ds. length ds \<le> int_max_str_digits) strs \<Longrightarrow> distinct acc \<Longrightarrow>
   cited_loop acc (set acc) strs = Inr (rev (remdups (rev (acc @ map digits_value strs))))"
proof (induction strs arbitrary: acc)
  case Nil
  then show ?case by (simp add: distinct_remdups_id)
next
  case (Cons s strs)
  from Cons.prems(1) have s: "py_int s = Inr (digits_value s)"
    and rest: "list_all (\<lambda>ds. length ds \<le> int_max_str_digits) strs"
    by (simp_all add: py_int_within_limit)
  show ?case
  proof (cases "digits_value s \<in> set acc")
    case True
    then show ?thesis
      using Cons.IH [OF rest Cons.prems(2)] first_occ_skip [OF True] s by simp
  next
    case False
    then have d: "distinct (acc @ [digits_value s])" using Cons.prems(2) by simp
    show ?thesis using False Cons.IH [OF rest d] s by simp
  qed
qed

lemma cited_loop_raises:
  "\<not> list_all (\<lambda>ds. length ds \<le> int_max_str_digits) strs \<Longrightarrow>
   \<exists>msg. cited_loop acc seen strs = Inl (ValueError msg)"
proof (induction strs arbitrary: acc seen)
  case Nil
  then show ?case by simp
next
  case (Cons s strs)
  show ?case
  proof (cases "length s \<le> int_max_str_digits")
    case True
    with Cons.prems have "\<not> list_all (\<lambda>ds. length ds \<le> int_max_str_digits) strs"
      by simp
    from Cons.IH [OF this] show ?thesis
      using py_int_within_limit [OF True] by simp
  next
    case False
    then obtain msg where "py_int s = Inl (ValueError msg)"
      using py_int_over_limit [of s] by auto
    then show ?thesis by simp
  qed
qed

lemma citations_loop_map_filter:
  "citations_loop chunks acc ns =
     acc @ map (\<lambda>n. (chunks ! nat (n - 1))(''citation_number'' \<mapsto> PInt n))
             (filter (\<lambda>n. 1 \<le> n \<and> n \<le> int (length chunks)) ns)"
  by (induction ns arbitrary: acc) (auto simp: Let_def)

text \<open>A marker in the text is found, and the scan goes on behind it.\<close>

lemma findall_citation_marker:
  assumes "ds \<noteq> []" and "list_all is_digit ds"
  shows "findall_citation (CHR ''['' # ds @ CHR '']'' # rest) = ds # findall_citation rest"
proof -
  have nd: "\<not> is_digit (CHR '']'')"
    by (simp add: is_digit_def)
  have all: "\<And>d. d \<in> set ds \<Longrightarrow> is_digit d"
    using assms(2) by (simp add: list_all_iff)
  have t: "takeWhile is_digit (ds @ CHR '']'' # rest) = ds"
    using all nd by (simp add: takeWhile_append2)
  have d: "dropWhile is_digit (ds @ CHR '']'' # rest) = CHR '']'' # rest"
    using all nd by (simp add: dropWhile_append2)
  show ?thesis
    using assms(1) by (simp add: t d)
qed

lemma show_nat_4300: "show_nat 4300 = ''4300''"
  by (simp add: show_nat.simps)

lemma show_nat_4301: "show_nat 4301 = ''4301''"
  by (simp add: show_nat.simps)

lemma long_marker_facts:
  "long_marker \<noteq> []" "list_all is_digit long_marker" "length long_marker = 4301"
  by (simp_all add: long_marker_def list_all_iff is_digit_def)

lemma findall_long_answer: "findall_citation long_answer = [''1'', long_marker]"
proof -
  have "long_answer =
      CHR ''['' # ''1'' @ CHR '']'' # (CHR ''['' # long_marker @ CHR '']'' # [])"
    by (simp add: long_answer_def)
  moreover have "findall_citation
      (CHR ''['' # ''1'' @ CHR '']'' # (CHR ''['' # long_marker @ CHR '']'' # [])) =
      ''1'' # findall_citation (CHR ''['' # long_marker @ CHR '']'' # [])"
    by (rule findall_citation_marker) (simp_all add: is_digit_def)
  moreover have "findall_citation (CHR ''['' # long_marker @ CHR '']'' # []) =
      long_marker # findall_citation []"
    by (rule findall_citation_marker) (rule long_marker_facts)+
  ultimately show ?thesis
    by simp
qed

text \<open>
  Where \<^verbatim>\<open>int\<close> accepts every marker, that is when no marker of the answer has more
  than 4300 digits, the citations extracted are, for the distinct marker values in order
  of first appearance that lie between 1 and the number of chunks, the chunk at that
  number (counted from 1) with \<open>citation_number\<close> set to the number; values out of
  range are dropped. Otherwise the extraction raises \<open>ValueError\<close>. An answer whose
  markers are 2, 1, 2, 5, over four chunks, yields the citations numbered 2 and 1, in
  that order, made from the second and the first chunk.
\<close>

lemma extract_citations_within_limit:
  "(markers_within_limit answer_text \<longrightarrow>
      extract_citations answer_text chunks =
        Inr (map (\<lambda>n. (chunks ! nat (n - 1))(''citation_number'' \<mapsto> PInt n))
               (filter (\<lambda>n. 1 \<le> n \<and> n \<le> int (length chunks))
                  (rev (remdups (rev (citation_markers answer_text)))))))
   \<and> (\<not> markers_within_limit answer_text \<longrightarrow>
        (\<exists>msg. extract_citations answer_text chunks = Inl (ValueError msg)))
   \<and> (markers_within_limit answer_text \<and> citation_markers answer_text = [2, 1, 2, 5] \<and>
      length chunks = 4 \<longrightarrow>
        extract_citations answer_text chunks =
          Inr [(chunks ! 1)(''citation_number'' \<mapsto> PInt 2),
               (chunks ! 0)(''citation_number'' \<mapsto> PInt 1)])"
proof -
  have general: "extract_citations answer_text chunks =
        Inr (map (\<lambda>n. (chunks ! nat (n - 1))(''citation_number'' \<mapsto> PInt n))
               (filter (\<lambda>n. 1 \<le> n \<and> n \<le> int (length chunks))
                  (rev (remdups (rev (citation_markers answer_text))))))"
    if ok: "markers_within_limit answer_text"
  proof -
    have "cited_loop [] (set []) (findall_citation answer_text) =
            Inr (rev (remdups (rev ([] @ citation_markers answer_text))))"
      unfolding citation_markers_def
      using ok by (intro cited_loop_first_occurrences) (simp_all add: markers_within_limit_def)
    then show ?thesis
      by (simp add: extract_citations_def citations_loop_map_filter)
  qed
  have raises: "\<exists>msg. extract_citations answer_text chunks = Inl (ValueError msg)"
    if bad: "\<not> markers_within_limit answer_text"
  proof -
    from bad obtain msg where
      "cited_loop [] {} (findall_citation answer_text) = Inl (ValueError msg)"
      using cited_loop_raises [of "findall_citation answer_text" "[]" "{}"]
      by (auto simp: markers_within_limit_def)
    then show ?thesis
      by (simp add: extract_citations_def)
  qed
  have example: "extract_citations answer_text chunks =
          Inr [(chunks ! 1)(''citation_number'' \<mapsto> PInt 2),
               (chunks ! 0)(''citation_number'' \<mapsto> PInt 1)]"
    if "markers_within_limit answer_text \<and> citation_markers answer_text = [2, 1, 2, 5] \<and>
        length chunks = 4"
    using that general by simp
  from general raises example show ?thesis
    by blast
qed

lemma extract_citations_example_run:
  "markers_within_limit ''Dogs bark [2]. Cats purr [1][2]. Fish sing [5].''
   \<and> citation_markers ''Dogs bark [2]. Cats purr [1][2]. Fish sing [5].'' = [2, 1, 2, 5]
   \<and> length example_chunks = 4
   \<and> extract_citations ''Dogs bark [2]. Cats purr [1][2]. Fish sing [5].'' example_chunks =
       Inr [[''id'' \<mapsto> PStr ''b'', ''text'' \<mapsto> PStr ''Dogs bark.'', ''citation_number'' \<mapsto> PInt 2],
            [''id'' \<mapsto> PStr ''a'', ''text'' \<mapsto> PStr ''Cats purr.'', ''citation_number'' \<mapsto> PInt 1]]"
proof -
  have f: "findall_citation ''Dogs bark [2]. Cats purr [1][2]. Fish sing [5].'' =
      [''2'', ''1'', ''2'', ''5'']"
    by (simp add: is_digit_def)
  have w: "markers_within_limit ''Dogs bark [2]. Cats purr [1][2]. Fish sing [5].''"
    unfolding markers_within_limit_def f by (simp add: int_max_str_digits_def)
  have m: "citation_markers ''Dogs bark [2]. Cats purr [1][2]. Fish sing [5].'' = [2, 1, 2, 5]"
    unfolding citation_markers_def f by (simp add: digits_value_def digit_val_def)
  have l: "length example_chunks = 4"
    by (simp add: example_chunks_def)
  from extract_citations_within_limit
         [of "''Dogs bark [2]. Cats purr [1][2]. Fish sing [5].''" example_chunks] w m l
  have "extract_citations ''Dogs bark [2]. Cats purr [1][2]. Fish sing [5].'' example_chunks =
          Inr [(example_chunks ! 1)(''citation_number'' \<mapsto> PInt 2),
               (example_chunks ! 0)(''citation_number'' \<mapsto> PInt 1)]"
    by blast
  with w m l show ?thesis
    by (simp add: example_chunks_def)
qed

text \<open>
  Claim C1. Markers whose number is out of range are to be dropped silently, and the
  test \<^verbatim>\<open>0 <= chunk_idx < len(chunks)\<close> is there to do it. A marker of 4301 digits
  never reaches that test: \<^verbatim>\<open>int\<close> refuses it, and the extraction raises
  \<open>ValueError\<close> instead of returning the citation of \<open>[1]\<close>, which is what the
  claim gives for this answer.
\<close>

theorem extract_citations_long_marker_raises:
  "extract_citations long_answer example_chunks =
     Inl (ValueError ''Exceeds the limit (4300 digits) for integer string conversion: value has 4301 digits; use sys.set_int_max_str_digits() to increase the limit'')
   \<and> extract_citations long_answer example_chunks \<noteq>
       Inr (map (\<lambda>n. (example_chunks ! nat (n - 1))(''citation_number'' \<mapsto> PInt n))
              (filter (\<lambda>n. 1 \<le> n \<and> n \<le> int (length example_chunks))
                 (rev (remdups (rev (citation_markers long_answer))))))"
proof -
  have one: "py_int ''1'' = Inr 1"
    by (simp add: py_int_def int_max_str_digits_def digits_value_def digit_val_def)
  have long: "py_int long_marker =
      Inl (ValueError ''Exceeds the limit (4300 digits) for integer string conversion: value has 4301 digits; use sys.set_int_max_str_digits() to increase the limit'')"
    by (simp add: py_int_def long_marker_facts int_max_str_digits_def show_nat_4300 show_nat_4301)
  have "extract_citations long_answer example_chunks =
     Inl (ValueError ''Exceeds the limit (4300 digits) for integer string conversion: value has 4301 digits; use sys.set_int_max_str_digits() to increase the limit'')"
    by (simp add: extract_citations_def findall_long_answer one long)
  then show ?thesis
    by simp
qed

subsection \<open>The guards of \<^verbatim>\<open>generate_answer\<close>\<close>

text \<open>
  Claim C8. With a query that is not blank and an empty chunk list,
  \<^verbatim>\<open>generate_answer\<close> returns the fixed answer
  \<open>No relevant information found in the provided sources.\<close> with an empty citation
  list, and no prompt has been sent to the language model.
\<close>

theorem generate_answer_no_chunks:
  "\<not> is_blank query \<Longrightarrow>
   generate_answer self api fmt query [] max_tokens =
     (Inr (Some \<lparr>answer = ''No relevant information found in the provided sources.'',
                  citations = [], chunk_count = 0, model = llm_model self,
                  answer_meta = NoChunksProvided\<rparr>), [])"
  by (simp add: generate_answer_def)

theorem generate_answer_no_chunks_witness:
  "\<not> is_blank ''What is AI?'' \<and>
   generate_answer example_llm_service failing_llm plain_format ''What is AI?'' [] None =
     (Inr (Some \<lparr>answer = ''No relevant information found in the provided sources.'',
                  citations = [], chunk_count = 0, model = ''llama-3.3-70b-versatile'',
                  answer_meta = NoChunksProvided\<rparr>), [])"
proof -
  have q: "\<not> is_blank ''What is AI?''"
    by (simp add: is_blank_def strip_def py_isspace_def)
  show ?thesis
    using q generate_answer_no_chunks [OF q, of example_llm_service failing_llm plain_format None]
    by (simp add: example_llm_service_def)
qed

text \<open>
  With chunks, and at least one attempt allowed, a prompt is sent: the loop sends one at
  every attempt it makes.
\<close>

lemma answer_loop_keeps_sent:
  "length sent \<le> length (snd (answer_loop self api prompt chunks max_tokens attempts sent))"
proof (induction attempts arbitrary: sent)
  case Nil
  then show ?case by simp
next
  case (Cons a attempts)
  have "length (sent @ [prompt])
          \<le> length (snd (answer_loop self api prompt chunks max_tokens attempts (sent @ [prompt])))"
    by (rule Cons.IH)
  then show ?case
    by (auto simp: Let_def split: option.splits)
qed

lemma answer_loop_sends:
  assumes "attempts \<noteq> []"
  shows "length sent < length (snd (answer_loop self api prompt chunks max_tokens attempts sent))"
proof -
  from assms obtain a rest where a: "attempts = a # rest"
    by (cases attempts) simp_all
  have "length (sent @ [prompt])
          \<le> length (snd (answer_loop self api prompt chunks max_tokens rest (sent @ [prompt])))"
    by (rule answer_loop_keeps_sent)
  then show ?thesis
    unfolding a by (auto simp: Let_def split: option.splits)
qed

lemma generate_answer_calls_model:
  assumes "\<not> is_blank query" and "chunks \<noteq> []"
    and "format_sources fmt chunks = Inr sources_text"
    and "1 \<le> llm_max_retries self"
  shows "snd (generate_answer self api fmt query chunks max_tokens) \<noteq> []"
proof -
  have "[0 ..< nat (llm_max_retries self)] \<noteq> []"
    using assms(4) by simp
  from answer_loop_sends [OF this, of "[]" self api "construct_prompt query sources_text" chunks
         "int_or max_tokens (llm_max_tokens self)"]
  show ?thesis
    using assms(1,2,3) by (auto simp: generate_answer_def Let_def split: prod.splits)
qed

text \<open>
  Claim C9. With a blank query, that is one that is empty or consists only of characters
  that \<^verbatim>\<open>str.strip()\<close> removes (\<open>is_blank_iff\<close>), \<^verbatim>\<open>generate_answer\<close> raises \<open>ValueError\<close> whatever the chunk list is, the empty
  one included: the test of the query comes first, so the fixed answer for an empty
  chunk list is not returned, and nothing is sent to the language model.
\<close>

theorem generate_answer_blank_query:
  "is_blank query \<Longrightarrow>
   generate_answer self api fmt query chunks max_tokens =
     (Inl (ValueError ''Query cannot be empty''), [])"
  by (simp add: generate_answer_def)


theorem generate_answer_blank_query_witness:
  "is_blank [CHR 0x20, CHR 0xA0, CHR 0x09, CHR 0x85] \<and>
   generate_answer example_llm_service failing_llm plain_format
     [CHR 0x20, CHR 0xA0, CHR 0x09, CHR 0x85] [] None =
     (Inl (ValueError ''Query cannot be empty''), [])"
proof -
  have q: "is_blank [CHR 0x20, CHR 0xA0, CHR 0x09, CHR 0x85]"
    by (simp add: is_blank_iff py_isspace_def)
  show ?thesis
    using q generate_answer_blank_query
              [OF q, of example_llm_service failing_llm plain_format "[]" None]
    by simp
qed

section \<open>Properties of the chunker\<close>

subsection \<open>The overlap loop\<close>

lemma sum_tokens_simps:
  "sum_tokens self [] = 0"
  "sum_tokens self (s # ss) = count_tokens self s + sum_tokens self ss"
  "sum_tokens self (ss @ ts) = sum_tokens self ss + sum_tokens self ts"
  "sum_tokens self (rev ss) = sum_tokens self ss"
  by (simp_all add: sum_tokens_def rev_map [symmetric])

lemma overlap_loop_spec:
  "overlap_loop self rs acc t = (seed, pre) \<Longrightarrow>
   \<exists>taken left. rs = taken @ left \<and> seed = rev taken @ acc \<and>
      pre = t + sum_tokens self taken \<and>
      (left \<noteq> [] \<longrightarrow> pre + count_tokens self (hd left) > chunk_overlap self) \<and>
      (taken \<noteq> [] \<longrightarrow> pre \<le> chunk_overlap self)"
proof (induction rs arbitrary: acc t)
  case Nil
  then show ?case by (simp add: sum_tokens_simps)
next
  case (Cons s rs)
  show ?case
  proof (cases "t + count_tokens self s \<le> chunk_overlap self")
    case True
    with Cons.prems have "overlap_loop self rs (s # acc) (t + count_tokens self s) = (seed, pre)"
      by (simp add: Let_def)
    from Cons.IH [OF this] obtain taken left where
      h: "rs = taken @ left" "seed = rev taken @ s # acc"
         "pre = t + count_tokens self s + sum_tokens self taken"
         "left \<noteq> [] \<longrightarrow> pre + count_tokens self (hd left) > chunk_overlap self"
         "taken \<noteq> [] \<longrightarrow> pre \<le> chunk_overlap self"
      by blast
    have "pre \<le> chunk_overlap self"
      using h(3,5) True by (cases taken) (simp_all add: sum_tokens_simps)
    with h show ?thesis
      by (intro exI [of _ "s # taken"] exI [of _ left]) (simp add: sum_tokens_simps)
  next
    case False
    with Cons.prems have "seed = acc" "pre = t"
      by (simp_all add: Let_def)
    with False show ?thesis
      by (intro exI [of _ "[]"] exI [of _ "s # rs"]) (simp add: sum_tokens_simps)
  qed
qed

lemma overlap_seed_spec:
  assumes "overlap_loop self (rev cur) [] 0 = (seed, pre)"
  shows "\<exists>dropped. cur = dropped @ seed \<and> pre = sum_tokens self seed \<and>
           (dropped \<noteq> [] \<longrightarrow> pre + count_tokens self (last dropped) > chunk_overlap self) \<and>
           (seed \<noteq> [] \<longrightarrow> pre \<le> chunk_overlap self)"
proof -
  from overlap_loop_spec [OF assms] obtain taken left where
    h: "rev cur = taken @ left" "seed = rev taken @ []" "pre = 0 + sum_tokens self taken"
       "left \<noteq> [] \<longrightarrow> pre + count_tokens self (hd left) > chunk_overlap self"
       "taken \<noteq> [] \<longrightarrow> pre \<le> chunk_overlap self"
    by blast
  from h(1) have "cur = rev left @ rev taken"
    by (metis rev_append rev_rev_ident)
  with h show ?thesis
    by (intro exI [of _ "rev left"]) (simp add: sum_tokens_simps last_rev)
qed


subsection \<open>The three cases of the loop body\<close>

lemma chunk_step_oversized:
  assumes "count_tokens self s > chunk_size self"
  shows "chunk_step self src ttl sec st s =
     (if current_chunk_sentences st \<noteq> []
      then st\<lparr>emitted_chunks := emitted_chunks st @
                 [make_chunk src ttl sec (join '' '' (current_chunk_sentences st))
                    (next_position st) (current_token_count st),
                  make_chunk src ttl sec s (next_position st + 1) (count_tokens self s)],
              next_position := next_position st + 2,
              current_chunk_sentences := [], current_token_count := 0\<rparr>
      else st\<lparr>emitted_chunks := emitted_chunks st @
                 [make_chunk src ttl sec s (next_position st) (count_tokens self s)],
              next_position := next_position st + 1\<rparr>)"
  using assms by (simp add: chunk_step_def save_current_def Let_def)

lemma chunk_step_close:
  assumes "\<not> count_tokens self s > chunk_size self"
    and "current_token_count st + count_tokens self s > chunk_size self"
    and "current_chunk_sentences st \<noteq> []"
    and "overlap_loop self (rev (current_chunk_sentences st)) [] 0 = (seed, pre)"
  shows "chunk_step self src ttl sec st s =
     st\<lparr>emitted_chunks := emitted_chunks st @
           [make_chunk src ttl sec (join '' '' (current_chunk_sentences st))
              (next_position st) (current_token_count st)],
        next_position := next_position st + 1,
        current_chunk_sentences := seed @ [s],
        current_token_count := pre + count_tokens self s\<rparr>"
  using assms by (simp add: chunk_step_def save_current_def Let_def)

lemma chunk_step_append:
  assumes "\<not> count_tokens self s > chunk_size self"
    and "\<not> (current_token_count st + count_tokens self s > chunk_size self \<and>
            current_chunk_sentences st \<noteq> [])"
  shows "chunk_step self src ttl sec st s =
     st\<lparr>current_chunk_sentences := current_chunk_sentences st @ [s],
        current_token_count := current_token_count st + count_tokens self s\<rparr>"
  using assms by (auto simp add: chunk_step_def save_current_def Let_def)

subsection \<open>The loop invariant\<close>

lemma pending_chunk_ok:
  assumes "chunker_inv self sentences st" and "current_chunk_sentences st \<noteq> []"
  shows "packs_sentences self sentences
           (make_chunk src ttl sec (join '' '' (current_chunk_sentences st)) pos
              (current_token_count st))"
    and "token_count (metadata (make_chunk src ttl sec txt pos (current_token_count st)))
           \<le> chunk_size self + max 0 (chunk_overlap self)"
proof -
  show "packs_sentences self sentences
           (make_chunk src ttl sec (join '' '' (current_chunk_sentences st)) pos
              (current_token_count st))"
    unfolding packs_sentences_def
    using assms by (intro exI [of _ "current_chunk_sentences st"])
      (simp add: chunker_inv_def make_chunk_def)
  show "token_count (metadata (make_chunk src ttl sec txt pos (current_token_count st)))
           \<le> chunk_size self + max 0 (chunk_overlap self)"
    using assms by (simp add: chunker_inv_def make_chunk_def)
qed

lemma oversized_chunk_ok:
  assumes "s \<in> set sentences" and "count_tokens self s > chunk_size self"
  shows "packs_sentences self sentences (make_chunk src ttl sec s pos (count_tokens self s))"
    and "oversized_sentence_chunk self sentences
           (make_chunk src ttl sec s pos (count_tokens self s))"
proof -
  show "packs_sentences self sentences (make_chunk src ttl sec s pos (count_tokens self s))"
    unfolding packs_sentences_def
    using assms by (intro exI [of _ "[s]"]) (simp add: make_chunk_def sum_tokens_simps)
  show "oversized_sentence_chunk self sentences
           (make_chunk src ttl sec s pos (count_tokens self s))"
    unfolding oversized_sentence_chunk_def
    using assms by (intro bexI [of _ s]) (simp_all add: make_chunk_def)
qed

lemma position_make_chunk: "position (metadata (make_chunk src ttl sec txt pos tokens)) = pos"
  by (simp add: make_chunk_def)

lemma chunk_step_inv:
  assumes inv: "chunker_inv self sentences st" and s: "s \<in> set sentences"
  shows "chunker_inv self sentences (chunk_step self src ttl sec st s)"
proof (cases "count_tokens self s > chunk_size self")
  case True
  note over = oversized_chunk_ok [OF s True]
  show ?thesis
  proof (cases "current_chunk_sentences st = []")
    case True
    with inv over show ?thesis
      unfolding chunk_step_oversized [OF \<open>count_tokens self s > chunk_size self\<close>]
      by (simp add: chunker_inv_def position_make_chunk sum_tokens_simps)
  next
    case False
    note pend = pending_chunk_ok [OF inv False]
    from inv over pend False show ?thesis
      unfolding chunk_step_oversized [OF \<open>count_tokens self s > chunk_size self\<close>]
      by (simp add: chunker_inv_def position_make_chunk sum_tokens_simps)
  qed
next
  case small: False
  show ?thesis
  proof (cases "current_token_count st + count_tokens self s > chunk_size self \<and>
                current_chunk_sentences st \<noteq> []")
    case True
    then have ne: "current_chunk_sentences st \<noteq> []" by simp
    obtain seed pre where ov:
      "overlap_loop self (rev (current_chunk_sentences st)) [] 0 = (seed, pre)"
      by (cases "overlap_loop self (rev (current_chunk_sentences st)) [] 0")
    from overlap_seed_spec [OF ov] obtain dropped where
      d: "current_chunk_sentences st = dropped @ seed" "pre = sum_tokens self seed"
         "seed \<noteq> [] \<longrightarrow> pre \<le> chunk_overlap self"
      by blast
    have pre_le: "pre \<le> max 0 (chunk_overlap self)"
      using d(2,3) by (cases seed) (simp_all add: sum_tokens_simps)
    have seed_sub: "set seed \<subseteq> set sentences"
      using inv d(1) by (auto simp: chunker_inv_def)
    note pend = pending_chunk_ok [OF inv ne]
    have step: "chunk_step self src ttl sec st s =
       st\<lparr>emitted_chunks := emitted_chunks st @
           [make_chunk src ttl sec (join '' '' (current_chunk_sentences st))
              (next_position st) (current_token_count st)],
        next_position := next_position st + 1,
        current_chunk_sentences := seed @ [s],
        current_token_count := pre + count_tokens self s\<rparr>"
      using True by (intro chunk_step_close [OF small _ _ ov]) simp_all
    from inv pend pre_le seed_sub s small d(2) show ?thesis
      unfolding step
      by (simp add: chunker_inv_def position_make_chunk sum_tokens_simps)
  next
    case False
    have zero: "current_chunk_sentences st = [] \<Longrightarrow> current_token_count st = 0"
      using inv by (simp add: chunker_inv_def sum_tokens_simps)
    have bound: "current_token_count st + count_tokens self s
                   \<le> chunk_size self + max 0 (chunk_overlap self)"
      using False small zero by (cases "current_chunk_sentences st = []") auto
    from inv s bound show ?thesis
      unfolding chunk_step_append [OF small False]
      by (simp add: chunker_inv_def sum_tokens_simps)
  qed
qed

lemma initial_state_inv: "chunker_inv self sentences initial_state"
  by (simp add: chunker_inv_def initial_state_def sum_tokens_simps)

lemma foldl_chunk_step_inv:
  "chunker_inv self sentences st \<Longrightarrow> set ss \<subseteq> set sentences \<Longrightarrow>
   chunker_inv self sentences (foldl (chunk_step self src ttl sec) st ss)"
  by (induction ss arbitrary: st) (simp_all add: chunk_step_inv)

lemma state_after_inv:
  "set before \<subseteq> set sentences \<Longrightarrow>
   chunker_inv self sentences (state_after self src ttl sec before)"
  unfolding state_after_def by (rule foldl_chunk_step_inv [OF initial_state_inv])


subsection \<open>Concrete runs\<close>

lemmas chunker_eval =
  chunk_text_def chunk_sentences_def sentences_of_def split_into_sentences_def strip_def
  py_isspace_def after_terminal_def boundary_space_def at_dollar_def is_upper_def
  chunk_step_def count_tokens_def byte_encoder_def initial_state_def save_current_def
  make_chunk_def Let_def

lemma example_sentences:
  "sentences_of ''Aaaa. Bbbbb. C.'' = [''Aaaa.'', ''Bbbbb.'', ''C.'']"
  by (simp add: chunker_eval)

lemma example_chunking:
  "chunk_text example_chunker ''Aaaa. Bbbbb. C.'' ''user_input'' None None =
     [make_chunk ''user_input'' None None ''Aaaa.'' 0 5,
      make_chunk ''user_input'' None None ''Aaaa. Bbbbb.'' 1 11,
      make_chunk ''user_input'' None None ''C.'' 2 2]"
  by (simp add: chunker_eval example_chunker_def)

lemma default_chunking:
  "chunk_text default_chunker ''Hi. Go.'' ''user_input'' None None =
     [make_chunk ''user_input'' None None ''Hi. Go.'' 0 6]"
  by (simp add: chunker_eval default_chunker_def)

subsection \<open>The chunks returned\<close>

lemma chunk_sentences_inv:
  "\<forall>c \<in> set (chunk_sentences self src ttl sec sentences).
      packs_sentences self sentences c \<and>
      (token_count (metadata c) \<le> chunk_size self + max 0 (chunk_overlap self) \<or>
       oversized_sentence_chunk self sentences c)"
proof -
  let ?st = "foldl (chunk_step self src ttl sec) initial_state sentences"
  have inv: "chunker_inv self sentences ?st"
    by (rule foldl_chunk_step_inv [OF initial_state_inv]) simp
  show ?thesis
  proof (cases "current_chunk_sentences ?st = []")
    case True
    with inv show ?thesis
      by (simp add: chunk_sentences_def chunker_inv_def Let_def)
  next
    case False
    note pend = pending_chunk_ok [OF inv False]
    from inv pend False show ?thesis
      by (simp add: chunk_sentences_def save_current_def chunker_inv_def Let_def)
  qed
qed

lemma chunk_sentences_positions:
  "map (\<lambda>c. position (metadata c)) (chunk_sentences self src ttl sec sentences) =
     map int [0 ..< length (chunk_sentences self src ttl sec sentences)]"
proof -
  let ?st = "foldl (chunk_step self src ttl sec) initial_state sentences"
  have inv: "chunker_inv self sentences ?st"
    by (rule foldl_chunk_step_inv [OF initial_state_inv]) simp
  then show ?thesis
    by (simp add: chunk_sentences_def save_current_def chunker_inv_def position_make_chunk Let_def)
qed

lemma chunk_step_keeps_emitted:
  "prefix (emitted_chunks st) (emitted_chunks (chunk_step self src ttl sec st s))"
  by (simp add: chunk_step_def save_current_def Let_def split: prod.split)

text \<open>
  Claim C6. For every text, blank or not, the positions of the chunks returned by
  \<^verbatim>\<open>chunk_text\<close> are 0, 1, ..., n - 1 in the order of the list, and a run of the
  loop body leaves the chunks already emitted as they are, so a position is never changed
  after its chunk is created.
\<close>

theorem chunk_text_positions:
  "map (\<lambda>c. position (metadata c)) (chunk_text self txt src ttl sec) =
     map int [0 ..< length (chunk_text self txt src ttl sec)]
   \<and> prefix (emitted_chunks st) (emitted_chunks (chunk_step self src ttl sec st sentence))"
  by (simp add: chunk_text_def chunk_sentences_positions chunk_step_keeps_emitted)

theorem chunk_text_positions_witness:
  "strip ''Aaaa. Bbbbb. C.'' \<noteq> [] \<and>
   length (chunk_text example_chunker ''Aaaa. Bbbbb. C.'' ''user_input'' None None) = 3 \<and>
   map (\<lambda>c. position (metadata c))
     (chunk_text example_chunker ''Aaaa. Bbbbb. C.'' ''user_input'' None None) = [0, 1, 2]"
proof -
  have ne: "strip ''Aaaa. Bbbbb. C.'' \<noteq> []"
    by (simp add: strip_def py_isspace_def)
  have len: "length (chunk_text example_chunker ''Aaaa. Bbbbb. C.'' ''user_input'' None None) = 3"
    by (simp add: example_chunking)
  have "[0 ..< 3] = [0, 1, 2]"
    by (simp add: upt_rec)
  with ne len show ?thesis
    using chunk_text_positions
      [of example_chunker "''Aaaa. Bbbbb. C.''" "''user_input''" None None initial_state "[]"]
    by simp
qed


text \<open>
  Claim C2, as stated: the recorded \<open>token_count\<close> of every chunk is the encoder's
  count of the chunk's text. It fails for a chunk of two sentences under the byte-level
  encoder: the recorded count is 3 + 3, the text \<open>Hi. Go.\<close> has 7 tokens.
\<close>

theorem token_count_joined_text_counterexample:
  "\<not> (\<forall>c \<in> set (chunk_text default_chunker ''Hi. Go.'' ''user_input'' None None).
         token_count (metadata c) = count_tokens default_chunker (text c))"
  unfolding default_chunking
  by (simp add: make_chunk_def count_tokens_def default_chunker_def byte_encoder_def)

text \<open>
  Claim C2, amended. Every chunk returned by \<^verbatim>\<open>chunk_text\<close> packs a non-empty list
  of sentences of the text: its text is these sentences joined by single spaces and its
  \<open>token_count\<close> is the sum of the encoder's counts of the sentences, each counted
  on its own. For a chunk of one sentence, the standalone oversized one included, this is
  the encoder's count of the chunk's text.
\<close>

theorem token_count_sum_of_sentences:
  "\<forall>c \<in> set (chunk_text self txt src ttl sec).
     \<exists>ss. ss \<noteq> [] \<and> set ss \<subseteq> set (sentences_of txt) \<and> text c = join '' '' ss \<and>
          token_count (metadata c) = sum_tokens self ss \<and>
          (length ss = 1 \<longrightarrow> token_count (metadata c) = count_tokens self (text c))"
proof
  fix c
  assume "c \<in> set (chunk_text self txt src ttl sec)"
  then have "c \<in> set (chunk_sentences self src ttl sec (sentences_of txt))"
    by (simp add: chunk_text_def split: if_splits)
  with chunk_sentences_inv [of self src ttl sec "sentences_of txt"]
  have "packs_sentences self (sentences_of txt) c"
    by blast
  then obtain ss where ss: "ss \<noteq> []" "set ss \<subseteq> set (sentences_of txt)"
      "text c = join '' '' ss" "token_count (metadata c) = sum_tokens self ss"
    unfolding packs_sentences_def by blast
  have "length ss = 1 \<longrightarrow> token_count (metadata c) = count_tokens self (text c)"
  proof
    assume "length ss = 1"
    then obtain s where "ss = [s]"
      by (cases ss) simp_all
    with ss(3,4) show "token_count (metadata c) = count_tokens self (text c)"
      by (simp add: sum_tokens_simps)
  qed
  with ss show "\<exists>ss. ss \<noteq> [] \<and> set ss \<subseteq> set (sentences_of txt) \<and> text c = join '' '' ss \<and>
          token_count (metadata c) = sum_tokens self ss \<and>
          (length ss = 1 \<longrightarrow> token_count (metadata c) = count_tokens self (text c))"
    by blast
qed

theorem token_count_sum_of_sentences_witness:
  "make_chunk ''user_input'' None None ''Hi. Go.'' 0 6
     \<in> set (chunk_text default_chunker ''Hi. Go.'' ''user_input'' None None) \<and>
   (\<exists>ss. ss \<noteq> [] \<and> text (make_chunk ''user_input'' None None ''Hi. Go.'' 0 6) = join '' '' ss \<and>
      token_count (metadata (make_chunk ''user_input'' None None ''Hi. Go.'' 0 6)) =
        sum_tokens default_chunker ss)"
proof -
  have m: "make_chunk ''user_input'' None None ''Hi. Go.'' 0 6
     \<in> set (chunk_text default_chunker ''Hi. Go.'' ''user_input'' None None)"
    by (simp add: default_chunking)
  from token_count_sum_of_sentences
         [of default_chunker "''Hi. Go.''" "''user_input''" None None, THEN bspec, OF m]
  show ?thesis using m by blast
qed

text \<open>
  Claim C4, as stated: every chunk but the last has \<open>token_count \<le> chunk_size\<close>
  unless it is an oversized-sentence chunk. It fails with \<open>chunk_size = 10\<close> and
  \<open>chunk_overlap = 5\<close> on three sentences of 5, 6 and 2 tokens: the second chunk is
  seeded with the first sentence and then takes the second one, 11 tokens in all.
\<close>

theorem chunk_budget_counterexample:
  "\<not> (\<forall>c \<in> set (butlast (chunk_text example_chunker ''Aaaa. Bbbbb. C.'' ''user_input'' None None)).
         token_count (metadata c) \<le> chunk_size example_chunker \<or>
         oversized_sentence_chunk example_chunker (sentences_of ''Aaaa. Bbbbb. C.'') c)"
  unfolding example_chunking example_sentences
  by (simp add: oversized_sentence_chunk_def make_chunk_def example_chunker_def)

text \<open>
  Claim C4, amended. Every chunk returned by \<^verbatim>\<open>chunk_text\<close>, the last included,
  either has \<open>token_count \<le> chunk_size + chunk_overlap\<close> (\<open>chunk_size\<close> alone when
  \<open>chunk_overlap\<close> is not positive), or is an oversized-sentence chunk: its text is one
  sentence, whose token count is the recorded one and exceeds \<open>chunk_size\<close>.
\<close>

theorem chunk_budget_with_overlap:
  "\<forall>c \<in> set (chunk_text self txt src ttl sec).
     token_count (metadata c) \<le> chunk_size self + max 0 (chunk_overlap self) \<or>
     oversized_sentence_chunk self (sentences_of txt) c"
proof
  fix c
  assume "c \<in> set (chunk_text self txt src ttl sec)"
  then have "c \<in> set (chunk_sentences self src ttl sec (sentences_of txt))"
    by (simp add: chunk_text_def split: if_splits)
  with chunk_sentences_inv [of self src ttl sec "sentences_of txt"]
  show "token_count (metadata c) \<le> chunk_size self + max 0 (chunk_overlap self) \<or>
     oversized_sentence_chunk self (sentences_of txt) c"
    by blast
qed

theorem chunk_budget_with_overlap_witness:
  "make_chunk ''user_input'' None None ''Aaaa. Bbbbb.'' 1 11
     \<in> set (chunk_text example_chunker ''Aaaa. Bbbbb. C.'' ''user_input'' None None) \<and>
   token_count (metadata (make_chunk ''user_input'' None None ''Aaaa. Bbbbb.'' 1 11))
     \<le> chunk_size example_chunker + max 0 (chunk_overlap example_chunker)"
proof -
  have m: "make_chunk ''user_input'' None None ''Aaaa. Bbbbb.'' 1 11
     \<in> set (chunk_text example_chunker ''Aaaa. Bbbbb. C.'' ''user_input'' None None)"
    by (simp add: example_chunking)
  have "\<not> oversized_sentence_chunk example_chunker (sentences_of ''Aaaa. Bbbbb. C.'')
            (make_chunk ''user_input'' None None ''Aaaa. Bbbbb.'' 1 11)"
    by (simp add: example_sentences oversized_sentence_chunk_def make_chunk_def)
  with chunk_budget_with_overlap
         [of example_chunker "''Aaaa. Bbbbb. C.''" "''user_input''" None None, THEN bspec, OF m]
  show ?thesis using m by blast
qed

text \<open>
  Claim C5. Take the loop of \<^verbatim>\<open>chunk_text\<close> after any sentences \<open>before\<close>, with a
  \<open>chunk_overlap\<close> that is not negative. When the next sentence fits \<open>chunk_size\<close>
  by itself but not on top of the pending chunk, the pending sentences split into
  \<open>dropped @ seed\<close>, where \<open>seed\<close> is what the backward scan collects: its token
  sum is at most \<open>chunk_overlap\<close>, and the sentence before it, if any, would exceed
  \<open>chunk_overlap\<close>. The next chunk starts as \<open>seed\<close> with the token sum of
  \<open>seed\<close> as its count, and then takes the sentence. When the next sentence is
  oversized, nothing is pending afterwards and the count is 0.
\<close>

theorem overlap_seeding:
  assumes "0 \<le> chunk_overlap self"
  shows
  "(count_tokens self sentence \<le> chunk_size self \<and>
    current_token_count (state_after self src ttl sec before) + count_tokens self sentence
      > chunk_size self \<and>
    current_chunk_sentences (state_after self src ttl sec before) \<noteq> [] \<longrightarrow>
      (\<exists>dropped seed.
         current_chunk_sentences (state_after self src ttl sec before) = dropped @ seed \<and>
         sum_tokens self seed \<le> chunk_overlap self \<and>
         (dropped \<noteq> [] \<longrightarrow>
            sum_tokens self seed + count_tokens self (last dropped) > chunk_overlap self) \<and>
         overlap_loop self (rev (current_chunk_sentences (state_after self src ttl sec before)))
            [] 0 = (seed, sum_tokens self seed) \<and>
         current_chunk_sentences (state_after self src ttl sec (before @ [sentence]))
           = seed @ [sentence] \<and>
         current_token_count (state_after self src ttl sec (before @ [sentence]))
           = sum_tokens self seed + count_tokens self sentence))
   \<and> (count_tokens self sentence > chunk_size self \<longrightarrow>
        current_chunk_sentences (state_after self src ttl sec (before @ [sentence])) = [] \<and>
        current_token_count (state_after self src ttl sec (before @ [sentence])) = 0)"
proof (intro conjI impI)
  let ?st = "state_after self src ttl sec before"
  have next_state: "state_after self src ttl sec (before @ [sentence]) =
      chunk_step self src ttl sec ?st sentence"
    by (simp add: state_after_def)
  have inv: "chunker_inv self before ?st"
    by (rule state_after_inv) simp
  {
    assume c: "count_tokens self sentence \<le> chunk_size self \<and>
      current_token_count ?st + count_tokens self sentence > chunk_size self \<and>
      current_chunk_sentences ?st \<noteq> []"
    obtain seed pre where ov:
      "overlap_loop self (rev (current_chunk_sentences ?st)) [] 0 = (seed, pre)"
      by (cases "overlap_loop self (rev (current_chunk_sentences ?st)) [] 0")
    from overlap_seed_spec [OF ov] obtain dropped where
      d: "current_chunk_sentences ?st = dropped @ seed" "pre = sum_tokens self seed"
         "dropped \<noteq> [] \<longrightarrow> pre + count_tokens self (last dropped) > chunk_overlap self"
         "seed \<noteq> [] \<longrightarrow> pre \<le> chunk_overlap self"
      by blast
    have le: "sum_tokens self seed \<le> chunk_overlap self"
      using d(2,4) assms by (cases seed) (simp_all add: sum_tokens_simps)
    have step: "chunk_step self src ttl sec ?st sentence =
       ?st\<lparr>emitted_chunks := emitted_chunks ?st @
             [make_chunk src ttl sec (join '' '' (current_chunk_sentences ?st))
                (next_position ?st) (current_token_count ?st)],
          next_position := next_position ?st + 1,
          current_chunk_sentences := seed @ [sentence],
          current_token_count := pre + count_tokens self sentence\<rparr>"
      using c by (intro chunk_step_close [OF _ _ _ ov]) simp_all
    show "\<exists>dropped seed.
         current_chunk_sentences ?st = dropped @ seed \<and>
         sum_tokens self seed \<le> chunk_overlap self \<and>
         (dropped \<noteq> [] \<longrightarrow>
            sum_tokens self seed + count_tokens self (last dropped) > chunk_overlap self) \<and>
         overlap_loop self (rev (current_chunk_sentences ?st)) [] 0
           = (seed, sum_tokens self seed) \<and>
         current_chunk_sentences (state_after self src ttl sec (before @ [sentence]))
           = seed @ [sentence] \<and>
         current_token_count (state_after self src ttl sec (before @ [sentence]))
           = sum_tokens self seed + count_tokens self sentence"
      using d le ov
      by (intro exI [of _ dropped] exI [of _ seed]) (simp add: next_state step)
  }
  {
    assume big: "count_tokens self sentence > chunk_size self"
    have zero: "current_chunk_sentences ?st = [] \<Longrightarrow> current_token_count ?st = 0"
      using inv by (simp add: chunker_inv_def sum_tokens_simps)
    show "current_chunk_sentences (state_after self src ttl sec (before @ [sentence])) = []"
      by (simp add: next_state chunk_step_oversized [OF big])
    show "current_token_count (state_after self src ttl sec (before @ [sentence])) = 0"
      using zero by (simp add: next_state chunk_step_oversized [OF big])
  }
qed

theorem overlap_seeding_witness:
  "0 \<le> chunk_overlap example_chunker \<and>
   count_tokens example_chunker ''Bbbbb.'' \<le> chunk_size example_chunker \<and>
   current_token_count (state_after example_chunker ''user_input'' None None [''Aaaa.''])
     + count_tokens example_chunker ''Bbbbb.'' > chunk_size example_chunker \<and>
   current_chunk_sentences (state_after example_chunker ''user_input'' None None [''Aaaa.''])
     \<noteq> [] \<and>
   (\<exists>dropped seed.
      current_chunk_sentences (state_after example_chunker ''user_input'' None None [''Aaaa.''])
        = dropped @ seed \<and>
      sum_tokens example_chunker seed \<le> chunk_overlap example_chunker \<and>
      current_chunk_sentences
        (state_after example_chunker ''user_input'' None None ([''Aaaa.''] @ [''Bbbbb.'']))
        = seed @ [''Bbbbb.''] \<and>
      current_token_count
        (state_after example_chunker ''user_input'' None None ([''Aaaa.''] @ [''Bbbbb.'']))
        = sum_tokens example_chunker seed + count_tokens example_chunker ''Bbbbb.'')"
proof -
  have ov: "0 \<le> chunk_overlap example_chunker"
    by (simp add: example_chunker_def)
  have st: "state_after example_chunker ''user_input'' None None [''Aaaa.''] =
      \<lparr>emitted_chunks = [], current_chunk_sentences = [''Aaaa.''], current_token_count = 5,
       next_position = 0\<rparr>"
    by (simp add: state_after_def chunker_eval example_chunker_def)
  have tk: "count_tokens example_chunker ''Bbbbb.'' = 6"
    by (simp add: count_tokens_def example_chunker_def byte_encoder_def)
  have sz: "chunk_size example_chunker = 10"
    by (simp add: example_chunker_def)
  have pre: "count_tokens example_chunker ''Bbbbb.'' \<le> chunk_size example_chunker \<and>
   current_token_count (state_after example_chunker ''user_input'' None None [''Aaaa.''])
     + count_tokens example_chunker ''Bbbbb.'' > chunk_size example_chunker \<and>
   current_chunk_sentences (state_after example_chunker ''user_input'' None None [''Aaaa.''])
     \<noteq> []"
    by (simp add: st tk sz)
  from overlap_seeding [OF ov, of "''Bbbbb.''" "''user_input''" None None "[''Aaaa.'']",
         THEN conjunct1, rule_format, OF pre]
  show ?thesis using ov pre by blast
qed

section \<open>Properties of the reranker\<close>

subsection \<open>Sorting and slicing\<close>



lemma py_sorted_reverse_length: "length (py_sorted_reverse key xs) = length xs"
  by (simp add: py_sorted_reverse_def)




subsection \<open>The loops\<close>

lemma reranker_score_set [simp]:
  "reranker_score (chunk(''reranker_score'' \<mapsto> PFloat score)) = score"
  by (simp add: reranker_score_def)





lemma rerank_loop_all_fail:
  assumes "\<forall>a. rerank_attempt api a query chunks texts k = None \<or> n \<le> a"
    and "int n = rerank_max_retries self"
    and "i < n"
  shows "rerank_loop self api query chunks texts k [i ..< n] =
           Some \<lparr>reranked_chunks = py_slice_to chunks k, rerank_scores = [],
                 result_count = min (int (length chunks)) k, fallback = True\<rparr>"
  using assms(3)
proof (induction "n - i" arbitrary: i)
  case 0
  then show ?case by simp
next
  case (Suc d)
  have fail: "rerank_attempt api i query chunks texts k = None"
    using assms(1) Suc.prems by (metis not_le)
  have range: "[i ..< n] = i # [Suc i ..< n]"
    using Suc.prems by (simp add: upt_conv_Cons)
  show ?case
  proof (cases "Suc i < n")
    case True
    then have "int i < rerank_max_retries self - 1"
      using assms(2) by linarith
    moreover have "d = n - Suc i"
      using Suc.hyps(2) by simp
    ultimately show ?thesis
      using Suc.hyps(1) [of "Suc i"] True fail range by simp
  next
    case False
    then have "\<not> int i < rerank_max_retries self - 1"
      using assms(2) Suc.prems by linarith
    then show ?thesis
      using fail range by simp
  qed
qed

subsection \<open>Concrete runs\<close>




subsection \<open>Order of the reranked chunks\<close>





subsection \<open>Fallback\<close>

text \<open>
  Claim C7. For a query that is not blank and chunks that all have a text, not none, if
  the service makes at least one attempt and the call to the relevance model fails at
  every attempt, \<^verbatim>\<open>rerank\<close> returns, and raises nothing: the result is marked
  as a fallback and holds the first \<open>top_k\<close> chunks of the input, as they are and in
  their order (\<open>top_k\<close> being the argument, or the service's default when the argument
  is \<^verbatim>\<open>None\<close> or 0, and not negative).
\<close>

theorem rerank_fallback:
  assumes "\<not> is_blank query"
    and "chunks \<noteq> []"
    and "chunk_texts chunks = Some texts"
    and "1 \<le> rerank_max_retries self"
    and "list_all (\<lambda>attempt. api attempt query texts = None)
           [0 ..< nat (rerank_max_retries self)]"
    and "0 \<le> int_or top_k (rerank_top_k self)"
  shows "rerank self api query chunks top_k =
           Inr (Some \<lparr>reranked_chunks = take (nat (int_or top_k (rerank_top_k self))) chunks,
                       rerank_scores = [],
                       result_count = min (int (length chunks)) (int_or top_k (rerank_top_k self)),
                       fallback = True\<rparr>)"
proof -
  let ?k = "int_or top_k (rerank_top_k self)"
  let ?n = "nat (rerank_max_retries self)"
  have n: "int ?n = rerank_max_retries self" "0 < ?n"
    using assms(4) by simp_all
  have "\<forall>a. rerank_attempt api a query chunks texts ?k = None \<or> ?n \<le> a"
  proof
    fix a
    show "rerank_attempt api a query chunks texts ?k = None \<or> ?n \<le> a"
    proof (cases "a < ?n")
      case True
      then have "api a query texts = None"
        using assms(5) by (simp add: list_all_iff)
      then show ?thesis
        by (simp add: rerank_attempt_def)
    next
      case False
      then show ?thesis by simp
    qed
  qed
  from rerank_loop_all_fail [OF this n]
  have "rerank_loop self api query chunks texts ?k [0 ..< ?n] =
          Some \<lparr>reranked_chunks = py_slice_to chunks ?k, rerank_scores = [],
                result_count = min (int (length chunks)) ?k, fallback = True\<rparr>" .
  moreover have "py_slice_to chunks ?k = take (nat ?k) chunks"
    using assms(6) by (simp add: py_slice_to_def)
  ultimately show ?thesis
    using assms(1,2,3) by (simp add: rerank_def)
qed

theorem rerank_fallback_witness:
  "\<not> is_blank ''Which pet?'' \<and> [chunk_a, chunk_b] \<noteq> [] \<and>
   chunk_texts [chunk_a, chunk_b] = Some [PStr ''Cats purr.'', PStr ''Dogs bark.''] \<and>
   1 \<le> rerank_max_retries example_reranker \<and>
   list_all (\<lambda>attempt. failing_api attempt ''Which pet?''
                          [PStr ''Cats purr.'', PStr ''Dogs bark.''] = None)
     [0 ..< nat (rerank_max_retries example_reranker)] \<and>
   0 \<le> int_or (Some 1) (rerank_top_k example_reranker) \<and>
   rerank example_reranker failing_api ''Which pet?'' [chunk_a, chunk_b] (Some 1) =
     Inr (Some \<lparr>reranked_chunks = [chunk_a], rerank_scores = [], result_count = 1,
                 fallback = True\<rparr>)"
proof -
  have q: "\<not> is_blank ''Which pet?''"
    by (simp add: is_blank_def strip_def py_isspace_def)
  have ne: "[chunk_a, chunk_b] \<noteq> []"
    by simp
  have texts: "chunk_texts [chunk_a, chunk_b] = Some [PStr ''Cats purr.'', PStr ''Dogs bark.'']"
    by (simp add: chunk_a_def chunk_b_def)
  have retries: "1 \<le> rerank_max_retries example_reranker"
    by (simp add: example_reranker_def)
  have fails: "list_all (\<lambda>attempt. failing_api attempt ''Which pet?''
                          [PStr ''Cats purr.'', PStr ''Dogs bark.''] = None)
     [0 ..< nat (rerank_max_retries example_reranker)]"
    by (simp add: failing_api_def list_all_iff)
  have k: "int_or (Some 1) (rerank_top_k example_reranker) = 1"
    by (simp add: int_or_def)
  then have k0: "0 \<le> int_or (Some 1) (rerank_top_k example_reranker)"
    by simp
  from rerank_fallback [where api = failing_api and self = example_reranker
                          and top_k = "Some 1", OF q ne texts retries fails k0]
  show ?thesis
    using q texts retries fails k by simp
qed

section \<open>Properties of the embedder\<close>

lemma embed_loop_success:
  "embed_loop self api valid_texts attempts = Inr (Some embeddings) \<Longrightarrow>
   \<exists>attempt \<in> set attempts. api attempt valid_texts = Some embeddings"
proof (induction attempts)
  case Nil
  then show ?case by simp
next
  case (Cons a attempts)
  show ?case
  proof (cases "api a valid_texts")
    case None
    with Cons.prems have "embed_loop self api valid_texts attempts = Inr (Some embeddings)"
      by (auto split: if_splits)
    from Cons.IH [OF this] show ?thesis by auto
  next
    case (Some es)
    with Cons.prems show ?thesis by simp
  qed
qed

text \<open>
  Claim C10. Let the embedding model answer with one vector per input. For a list of
  texts with a blank one (empty, or only of characters that \<^verbatim>\<open>str.strip()\<close> removes)
  and one that is not blank, when
  \<^verbatim>\<open>generate_embeddings_batch\<close> returns embeddings, they are the model's response
  to the texts that are not blank, one per such text, and fewer than the texts given.
\<close>

theorem embeddings_batch_drops_blank_texts:
  assumes "\<forall>attempt input es. api attempt input = Some es \<longrightarrow> length es = length input"
    and "\<exists>t \<in> set texts. is_blank t"
    and "\<exists>t \<in> set texts. \<not> is_blank t"
    and "generate_embeddings_batch self api texts = Inr (Some embeddings)"
  shows "(\<exists>attempt < nat (embed_max_retries self).
            api attempt (filter (\<lambda>t. \<not> is_blank t) texts) = Some embeddings) \<and>
         length embeddings = length (filter (\<lambda>t. \<not> is_blank t) texts) \<and>
         length embeddings < length texts"
proof -
  let ?valid = "filter (\<lambda>t. \<not> is_blank t) texts"
  have ne: "texts \<noteq> []" "?valid \<noteq> []"
    using assms(3) by (auto simp: filter_empty_conv)
  with assms(4) have
    "embed_loop self api ?valid [0 ..< nat (embed_max_retries self)] = Inr (Some embeddings)"
    by (simp add: generate_embeddings_batch_def Let_def)
  from embed_loop_success [OF this] obtain attempt where
    a: "attempt < nat (embed_max_retries self)" "api attempt ?valid = Some embeddings"
    by auto
  from a(2) assms(1) have len: "length embeddings = length ?valid"
    by blast
  from assms(2) have "length ?valid < length texts"
    by (auto intro: length_filter_less)
  with a len show ?thesis
    by auto
qed

theorem embeddings_batch_drops_blank_texts_witness:
  "generate_embeddings_batch example_embedder length_embedder
     [[CHR 0xA0], ''  '', ''Cats purr.'', ''Hi.'']
     = Inr (Some [[10], [3]]) \<and>
   length [[10], [3 :: real]] =
     length (filter (\<lambda>t. \<not> is_blank t) [[CHR 0xA0], ''  '', ''Cats purr.'', ''Hi.'']) \<and>
   length [[10], [3 :: real]] < length [[CHR 0xA0], ''  '', ''Cats purr.'', ''Hi.'']"
proof -
  let ?texts = "[[CHR 0xA0], ''  '', ''Cats purr.'', ''Hi.'']"
  have contract:
    "\<forall>attempt input es. length_embedder attempt input = Some es \<longrightarrow> length es = length input"
    by (auto simp: length_embedder_def)
  have blank: "is_blank [CHR 0xA0]" "is_blank ''  ''" "\<not> is_blank ''Cats purr.''"
      "\<not> is_blank ''Hi.''"
    by (simp_all add: is_blank_def strip_def py_isspace_def)
  then have b: "\<exists>t \<in> set ?texts. is_blank t" and nb: "\<exists>t \<in> set ?texts. \<not> is_blank t"
    by simp_all
  have attempts: "[0 ..< nat (embed_max_retries example_embedder)] = [0, 1, 2]"
    by (simp add: example_embedder_def upt_rec)
  have run: "generate_embeddings_batch example_embedder length_embedder ?texts
     = Inr (Some [[10], [3]])"
    by (simp add: generate_embeddings_batch_def blank attempts length_embedder_def)
  from embeddings_batch_drops_blank_texts [OF contract b nb run]
  show ?thesis
    using run by simp
qed

end
